theory Spec2Isabelle
  imports Main "HOL-Library.Sublist"
begin

section \<open>JavaScript values\<close>

text \<open>
  The resolver and the route handlers exchange parsed JSON, which TypeScript types as
  \<open>any\<close>. A value is modelled as it exists at run time. The numbers are the values of
  a type \<open>'n\<close> that is left open: it stands for the IEEE doubles of the platform, with
  their fractions, signed zeros, infinities and \<open>NaN\<close>. Strings are byte strings in UTF-8.
  An object is an association list in which the first binding of a key is the value of
  the property.
\<close>

datatype 'n jsval =
    JUndef
  | JNull
  | JBool bool
  | JNum 'n
  | JStr string
  | JArr "'n jsval list"
  | JObj "(string \<times> 'n jsval) list"

text \<open>
  What the code takes from the platform: the operations on numbers and strings that are
  built into the language. They are parameters of every definition that uses them, so
  that nothing is assumed of them beyond what a theorem states.
  \<^item> \<open>isNaN\<close>, and \<open>isZero\<close> for the two zeros, which with \<open>NaN\<close> are the falsy numbers;
  \<^item> \<open>NaN\<close>, and \<open>Number_of_int\<close> for the number written as an integer literal;
  \<^item> \<open>Number_of_string\<close> for \<open>Number(s)\<close> and \<open>Number_toString\<close> for \<open>String(n)\<close>;
  \<^item> \<open>toLocaleString\<close> for \<open>n.toLocaleString('en-US')\<close>;
  \<^item> \<open>Number_minus\<close> for \<open>a - b\<close>, \<open>Number_ge0\<close> for \<open>n >= 0\<close>, \<open>Math_abs\<close>;
  \<^item> \<open>toUpperCase\<close> for \<open>s.toUpperCase()\<close>;
  \<^item> \<open>JSON_number\<close> for what \<open>JSON.parse(JSON.stringify(n))\<close> yields.
\<close>

record 'n platform =
  isNaN :: "'n \<Rightarrow> bool"
  isZero :: "'n \<Rightarrow> bool"
  NaN :: 'n
  Number_of_int :: "int \<Rightarrow> 'n"
  Number_of_string :: "string \<Rightarrow> 'n"
  Number_toString :: "'n \<Rightarrow> string"
  toLocaleString :: "'n \<Rightarrow> string"
  Number_minus :: "'n \<Rightarrow> 'n \<Rightarrow> 'n"
  Number_ge0 :: "'n \<Rightarrow> bool"
  Math_abs :: "'n \<Rightarrow> 'n"
  toUpperCase :: "string \<Rightarrow> string"
  JSON_number :: "'n \<Rightarrow> 'n jsval"

text \<open>What a rejected promise of the resolver carries.\<close>

datatype error = TypeError | FetchFailed

definition andThen :: "error + 'a \<Rightarrow> ('a \<Rightarrow> error + 'b) \<Rightarrow> error + 'b" where
  "andThen m k = (case m of Inl e \<Rightarrow> Inl e | Inr v \<Rightarrow> k v)"

text \<open>Truthiness, as tested by \<open>!v\<close> and \<open>v ? a : b\<close>.\<close>

fun truthy :: "'n platform \<Rightarrow> 'n jsval \<Rightarrow> bool" where
  "truthy P JUndef = False"
| "truthy P JNull = False"
| "truthy P (JBool b) = b"
| "truthy P (JNum x) = (\<not> isZero P x \<and> \<not> isNaN P x)"
| "truthy P (JStr s) = (s \<noteq> [])"
| "truthy P (JArr xs) = True"
| "truthy P (JObj kvs) = True"

text \<open>\<open>v == null\<close>.\<close>

definition nullish :: "'n jsval \<Rightarrow> bool" where
  "nullish v = (v = JUndef \<or> v = JNull)"

text \<open>
  Property read \<open>v.k\<close> for the names that the code below reads this way
  (\<open>fiscal_year\<close>, \<open>total\<close>, \<open>yoy_change\<close>, \<open>category\<close>, \<open>pct_of_year\<close>, \<open>data\<close>,
  \<open>partial\<close>): a TypeError on \<open>undefined\<close> and \<open>null\<close>, the own property of an object,
  and \<open>undefined\<close> on an array, a string, a number and a boolean, which have no property
  of these names.
\<close>

fun get_prop :: "'n jsval \<Rightarrow> string \<Rightarrow> error + 'n jsval" where
  "get_prop JUndef k = Inl TypeError"
| "get_prop JNull k = Inl TypeError"
| "get_prop (JObj kvs) k = Inr (case map_of kvs k of None \<Rightarrow> JUndef | Some v \<Rightarrow> v)"
| "get_prop v k = Inr JUndef"

text \<open>Optional chaining \<open>v?.k\<close>.\<close>

definition opt_prop :: "'n jsval \<Rightarrow> string \<Rightarrow> error + 'n jsval" where
  "opt_prop v k = (if nullish v then Inr JUndef else get_prop v k)"

text \<open>
  \<open>!rows?.length\<close>: the length of an array or a string is falsy when it is zero; an
  object has the length that it binds; \<open>undefined\<close>, \<open>null\<close>, a number and a boolean have
  none.
\<close>

definition no_length :: "'n platform \<Rightarrow> 'n jsval \<Rightarrow> bool" where
  "no_length P rows =
     (case rows of
        JArr xs \<Rightarrow> xs = []
      | JStr s \<Rightarrow> s = []
      | JObj kvs \<Rightarrow> \<not> truthy P (case map_of kvs ''length'' of None \<Rightarrow> JUndef | Some v \<Rightarrow> v)
      | _ \<Rightarrow> True)"

subsection \<open>Array methods with a callback that may throw\<close>

fun find_first :: "('n jsval \<Rightarrow> error + bool) \<Rightarrow> 'n jsval list \<Rightarrow> error + 'n jsval" where
  "find_first p [] = Inr JUndef"
| "find_first p (r # rs) =
     (case p r of Inl e \<Rightarrow> Inl e
      | Inr b \<Rightarrow> if b then Inr r else find_first p rs)"

fun some_first :: "('n jsval \<Rightarrow> error + bool) \<Rightarrow> 'n jsval list \<Rightarrow> error + bool" where
  "some_first p [] = Inr False"
| "some_first p (r # rs) =
     (case p r of Inl e \<Rightarrow> Inl e
      | Inr b \<Rightarrow> if b then Inr True else some_first p rs)"

fun map_index :: "('n jsval \<Rightarrow> nat \<Rightarrow> error + string) \<Rightarrow> nat \<Rightarrow> 'n jsval list \<Rightarrow> error + string list" where
  "map_index f i [] = Inr []"
| "map_index f i (r # rs) =
     (case f r i of Inl e \<Rightarrow> Inl e
      | Inr l \<Rightarrow> (case map_index f (Suc i) rs of Inl e \<Rightarrow> Inl e | Inr ls \<Rightarrow> Inr (l # ls)))"

text \<open>
  \<open>rows.find(p)\<close>, \<open>rows.some(p)\<close> and \<open>rows.map(f)\<close>: the receiver has the method only
  when it is an array; on anything else the call is a TypeError.
\<close>

definition Array_find :: "('n jsval \<Rightarrow> error + bool) \<Rightarrow> 'n jsval \<Rightarrow> error + 'n jsval" where
  "Array_find p rows = (case rows of JArr xs \<Rightarrow> find_first p xs | _ \<Rightarrow> Inl TypeError)"

definition Array_some :: "('n jsval \<Rightarrow> error + bool) \<Rightarrow> 'n jsval \<Rightarrow> error + bool" where
  "Array_some p rows = (case rows of JArr xs \<Rightarrow> some_first p xs | _ \<Rightarrow> Inl TypeError)"

definition Array_map :: "('n jsval \<Rightarrow> nat \<Rightarrow> error + string) \<Rightarrow> 'n jsval \<Rightarrow> error + string list" where
  "Array_map f rows = (case rows of JArr xs \<Rightarrow> map_index f 0 xs | _ \<Rightarrow> Inl TypeError)"

text \<open>\<open>lines.join(sep)\<close> on an array of strings.\<close>

fun join :: "string \<Rightarrow> string list \<Rightarrow> string" where
  "join sep [] = []"
| "join sep [l] = l"
| "join sep (l # m # ls) = l @ sep @ join sep (m # ls)"

section \<open>Numbers and strings as text\<close>

text \<open>
  \<^verbatim>\<open>const USD = (n) => typeof n === 'number' && !isNaN(n) ? `$${n.toLocaleString('en-US')}` : '$0';\<close>
\<close>

definition USD :: "'n platform \<Rightarrow> 'n jsval \<Rightarrow> string" where
  "USD P v =
     (case v of
        JNum x \<Rightarrow> if isNaN P x then ''$0'' else ''$'' @ toLocaleString P x
      | _ \<Rightarrow> ''$0'')"

text \<open>
  Template-literal interpolation \<open>${v}\<close>, that is \<open>String(v)\<close>. An array prints its
  elements joined by commas, with \<open>null\<close> and \<open>undefined\<close> elements printed as nothing.
\<close>

fun ToString :: "'n platform \<Rightarrow> 'n jsval \<Rightarrow> string" where
  "ToString P JUndef = ''undefined''"
| "ToString P JNull = ''null''"
| "ToString P (JBool b) = (if b then ''true'' else ''false'')"
| "ToString P (JNum x) = Number_toString P x"
| "ToString P (JStr s) = s"
| "ToString P (JArr xs) = join '','' (map (\<lambda>x. if nullish x then [] else ToString P x) xs)"
| "ToString P (JObj kvs) = ''[object Object]''"

text \<open>\<open>Number(v)\<close>, the conversion that \<open>-\<close>, \<open>>=\<close> and \<open>Math.abs\<close> apply to an operand.\<close>

definition ToNumber :: "'n platform \<Rightarrow> 'n jsval \<Rightarrow> 'n" where
  "ToNumber P v =
     (case v of
        JUndef \<Rightarrow> NaN P
      | JNull \<Rightarrow> Number_of_int P 0
      | JBool b \<Rightarrow> Number_of_int P (if b then 1 else 0)
      | JNum x \<Rightarrow> x
      | JStr s \<Rightarrow> Number_of_string P s
      | JArr xs \<Rightarrow> Number_of_string P (ToString P v)
      | JObj kvs \<Rightarrow> Number_of_string P (ToString P v))"

text \<open>\<open>a - b\<close>, \<open>v >= 0\<close> and \<open>Math.abs(v)\<close>.\<close>

definition js_minus :: "'n platform \<Rightarrow> 'n jsval \<Rightarrow> 'n jsval \<Rightarrow> 'n jsval" where
  "js_minus P a b = JNum (Number_minus P (ToNumber P a) (ToNumber P b))"

definition js_ge0 :: "'n platform \<Rightarrow> 'n jsval \<Rightarrow> bool" where
  "js_ge0 P v = Number_ge0 P (ToNumber P v)"

definition js_abs :: "'n platform \<Rightarrow> 'n jsval \<Rightarrow> 'n jsval" where
  "js_abs P v = JNum (Math_abs P (ToNumber P v))"

text \<open>The decimal digits of an array index, as \<open>String(i)\<close> prints it.\<close>

definition digit_char :: "nat \<Rightarrow> char" where
  "digit_char d = ''0123456789'' ! (d mod 10)"

fun digits :: "nat \<Rightarrow> string" where
  "digits n = (if n < 10 then [digit_char n] else digits (n div 10) @ [digit_char (n mod 10)])"

declare digits.simps [simp del]

section \<open>The intent resolver\<close>

text \<open>
  \<^verbatim>\<open>export type Year = 'FY24'|'FY25'|'FY26';\<close> The union is erased at run time, where a
  year is the string that the classifier or the query string supplied.
\<close>

type_synonym Year = string

text \<open>
  The resolver is the TypeScript module that follows the chat widget in
  \<open>public/assistant.js\<close>. An intent is an object with an \<open>action\<close> tag and the
  parameters of its variant. The record has the fields of all seven variants; a branch
  of the resolver reads only the fields of its own variant. The tag is an arbitrary
  value, as it is at run time, and the \<open>switch\<close> compares it with \<open>===\<close>.
\<close>

record 'n Intent =
  action :: "'n jsval"
  year :: Year
  partial_data :: "bool option"
  year_from :: Year
  year_to :: Year
  top_n :: "'n option"
  category :: string
  line_item :: string
  question :: string

text \<open>
  A request is the path of the URL and its query parameters, decoded. What \<open>fetch\<close>
  followed by \<open>res.json()\<close> yields is a parameter of the resolver: the parsed body, or a
  rejection. The status code is not looked at by the resolver.
\<close>

record request =
  path :: string
  query :: "(string \<times> string) list"

type_synonym 'n fetch = "request \<Rightarrow> error + 'n jsval"

definition PARTIAL_NOTE :: string where
  "PARTIAL_NOTE = ''Note: FY26 data is partial.''"

definition newline :: string where
  "newline = [CHR 0x0A]"

text \<open>The arrow U+2192 and the minus sign U+2212 of the source, in UTF-8.\<close>

definition arrow :: string where
  "arrow = [CHR 0xE2, CHR 0x86, CHR 0x92]"

definition minus_sign :: string where
  "minus_sign = [CHR 0xE2, CHR 0x88, CHR 0x92]"

text \<open>\<^verbatim>\<open>cond ? `${msg}${sep}${PARTIAL_NOTE}` : msg\<close>, the last line of six branches.\<close>

definition with_note :: "bool \<Rightarrow> string \<Rightarrow> string \<Rightarrow> string" where
  "with_note cond sep msg = (if cond then msg @ sep @ PARTIAL_NOTE else msg)"

text \<open>\<open>r => r.fiscal_year === y\<close>\<close>

definition fiscal_year_is :: "Year \<Rightarrow> 'n jsval \<Rightarrow> error + bool" where
  "fiscal_year_is y r = andThen (get_prop r ''fiscal_year'') (\<lambda>v. Inr (v = JStr y))"

subsection \<open>year_total\<close>

text \<open>\<^verbatim>\<open>`Total ${intent.year} budget: ${USD(row?.total)}. Source: v_year_totals(${intent.year}).`\<close>\<close>

definition year_total_msg :: "'n platform \<Rightarrow> Year \<Rightarrow> 'n jsval \<Rightarrow> string" where
  "year_total_msg P y amount =
     ''Total '' @ y @ '' budget: '' @ USD P amount @ ''. Source: v_year_totals('' @ y @ '').''"

definition year_totals_request :: request where
  "year_totals_request = \<lparr>path = ''/api/budget/year-totals'', query = []\<rparr>"

definition handle_year_total :: "'n platform \<Rightarrow> 'n fetch \<Rightarrow> 'n Intent \<Rightarrow> error + string" where
  "handle_year_total P fetch intent =
     andThen (fetch year_totals_request) (\<lambda>rows.
     andThen (Array_find (fiscal_year_is (year intent)) rows) (\<lambda>row.
     andThen (opt_prop row ''total'') (\<lambda>total.
       Inr (with_note (year intent = ''FY26'') '' '' (year_total_msg P (year intent) total)))))"

subsection \<open>yoy_difference\<close>

text \<open>
  \<^verbatim>\<open>`Change from ${intent.year_from} to ${intent.year_to}: ${USD(delta)} (${USD(fromRow.total)} -> ${USD(toRow.total)}). Source: v_year_yoy.`\<close>
  with the arrow U+2192.
\<close>

definition yoy_difference_msg ::
  "'n platform \<Rightarrow> Year \<Rightarrow> Year \<Rightarrow> 'n jsval \<Rightarrow> 'n jsval \<Rightarrow> 'n jsval \<Rightarrow> string" where
  "yoy_difference_msg P yfrom yto delta fromTotal toTotal =
     ''Change from '' @ yfrom @ '' to '' @ yto @ '': '' @ USD P delta @ '' (''
     @ USD P fromTotal @ '' '' @ arrow @ '' '' @ USD P toTotal @ ''). Source: v_year_yoy.''"

definition yoy_request :: request where
  "yoy_request = \<lparr>path = ''/api/budget/yoy'', query = []\<rparr>"

definition handle_yoy_difference :: "'n platform \<Rightarrow> 'n fetch \<Rightarrow> 'n Intent \<Rightarrow> error + string" where
  "handle_yoy_difference P fetch intent =
     andThen (fetch yoy_request) (\<lambda>rows.
     andThen (Array_find (fiscal_year_is (year_to intent)) rows) (\<lambda>toRow.
     andThen (Array_find (fiscal_year_is (year_from intent)) rows) (\<lambda>fromRow.
       if \<not> truthy P toRow \<or> \<not> truthy P fromRow
       then Inr ''I could not find the requested years.''
       else
         andThen (get_prop toRow ''total'') (\<lambda>toTotal.
         andThen (get_prop fromRow ''total'') (\<lambda>fromTotal.
           let delta = js_minus P toTotal fromTotal
           in Inr (with_note (year_to intent = ''FY26'' \<or> year_from intent = ''FY26'') '' ''
                     (yoy_difference_msg P (year_from intent) (year_to intent) delta
                        fromTotal toTotal)))))))"

subsection \<open>yoy_all\<close>

text \<open>
  \<^verbatim>\<open>if (r.yoy_change == null) return `${r.fiscal_year}: base ${USD(r.total)}`;\<close>
  \<^verbatim>\<open>const sign = r.yoy_change >= 0 ? '+' : '-';\<close> (the minus sign U+2212)
  \<^verbatim>\<open>return `${r.fiscal_year}: ${sign}${USD(Math.abs(r.yoy_change))} (total ${USD(r.total)})`;\<close>
\<close>

definition yoy_line :: "'n platform \<Rightarrow> 'n jsval \<Rightarrow> nat \<Rightarrow> error + string" where
  "yoy_line P r i =
     andThen (get_prop r ''yoy_change'') (\<lambda>change.
     andThen (get_prop r ''fiscal_year'') (\<lambda>fy.
     andThen (get_prop r ''total'') (\<lambda>total.
       if nullish change then Inr (ToString P fy @ '': base '' @ USD P total)
       else
         let sign = (if js_ge0 P change then ''+'' else minus_sign)
         in Inr (ToString P fy @ '': '' @ sign @ USD P (js_abs P change)
                 @ '' (total '' @ USD P total @ '')''))))"

text \<open>\<^verbatim>\<open>`Year-over-year changes:\n- ${lines.join('\n- ')}\nSource: v_year_yoy.`\<close>\<close>

definition yoy_all_msg :: "string list \<Rightarrow> string" where
  "yoy_all_msg lines =
     ''Year-over-year changes:'' @ newline @ ''- '' @ join (newline @ ''- '') lines
     @ newline @ ''Source: v_year_yoy.''"

definition handle_yoy_all :: "'n platform \<Rightarrow> 'n fetch \<Rightarrow> error + string" where
  "handle_yoy_all P fetch =
     andThen (fetch yoy_request) (\<lambda>rows.
     andThen (Array_map (yoy_line P) rows) (\<lambda>lines.
     andThen (Array_some (fiscal_year_is ''FY26'') rows) (\<lambda>anyPartial.
       Inr (with_note anyPartial newline (yoy_all_msg lines)))))"

subsection \<open>category_rank\<close>

text \<open>\<^verbatim>\<open>(r, i) => `${i+1}. ${r.category}: ${USD(r.total)}`\<close>\<close>

definition rank_line :: "'n platform \<Rightarrow> 'n jsval \<Rightarrow> nat \<Rightarrow> error + string" where
  "rank_line P r i =
     andThen (get_prop r ''category'') (\<lambda>cat.
     andThen (get_prop r ''total'') (\<lambda>total.
       Inr (digits (i + 1) @ ''. '' @ ToString P cat @ '': '' @ USD P total)))"

text \<open>\<^verbatim>\<open>`Top ${limit} categories in ${intent.year}:\n${list}\nSource: v_category_totals(${intent.year}).`\<close>\<close>

definition category_rank_msg :: "'n platform \<Rightarrow> 'n \<Rightarrow> Year \<Rightarrow> string \<Rightarrow> string" where
  "category_rank_msg P limit y list =
     ''Top '' @ Number_toString P limit @ '' categories in '' @ y @ '':'' @ newline @ list
     @ newline @ ''Source: v_category_totals('' @ y @ '').''"

text \<open>\<open>intent.top_n ?? 10\<close>\<close>

definition limit_of :: "'n platform \<Rightarrow> 'n Intent \<Rightarrow> 'n" where
  "limit_of P intent = (case top_n intent of None \<Rightarrow> Number_of_int P 10 | Some n \<Rightarrow> n)"

definition category_request :: "'n platform \<Rightarrow> 'n Intent \<Rightarrow> request" where
  "category_request P intent =
     \<lparr>path = ''/api/budget/category'',
      query = [(''year'', year intent), (''limit'', Number_toString P (limit_of P intent))]\<rparr>"

definition handle_category_rank :: "'n platform \<Rightarrow> 'n fetch \<Rightarrow> 'n Intent \<Rightarrow> error + string" where
  "handle_category_rank P fetch intent =
     andThen (fetch (category_request P intent)) (\<lambda>json.
     andThen (get_prop json ''data'') (\<lambda>rows.
       if no_length P rows then Inr (''No categories found for '' @ year intent @ ''.'')
       else
         andThen (Array_map (rank_line P) rows) (\<lambda>lines.
         andThen (get_prop json ''partial'') (\<lambda>partial.
           Inr (with_note (truthy P partial) newline
                  (category_rank_msg P (limit_of P intent) (year intent)
                     (join newline lines)))))))"

subsection \<open>category_share\<close>

text \<open>\<open>r => r.category.toUpperCase() === c.toUpperCase()\<close>: the method exists on strings only.\<close>

definition category_is :: "'n platform \<Rightarrow> string \<Rightarrow> 'n jsval \<Rightarrow> error + bool" where
  "category_is P c r =
     andThen (get_prop r ''category'') (\<lambda>v.
       case v of JStr s \<Rightarrow> Inr (toUpperCase P s = toUpperCase P c) | _ \<Rightarrow> Inl TypeError)"

text \<open>
  \<^verbatim>\<open>`${intent.category} in ${intent.year}: ${USD(row.total)} (${row.pct_of_year}% of total). Source: v_category_shares(${intent.year}).`\<close>
\<close>

definition category_share_msg :: "'n platform \<Rightarrow> string \<Rightarrow> Year \<Rightarrow> 'n jsval \<Rightarrow> 'n jsval \<Rightarrow> string" where
  "category_share_msg P c y amount pct =
     c @ '' in '' @ y @ '': '' @ USD P amount @ '' ('' @ ToString P pct
     @ ''% of total). Source: v_category_shares('' @ y @ '').''"

definition shares_request :: "'n Intent \<Rightarrow> request" where
  "shares_request intent = \<lparr>path = ''/api/budget/shares'', query = [(''year'', year intent)]\<rparr>"

definition handle_category_share :: "'n platform \<Rightarrow> 'n fetch \<Rightarrow> 'n Intent \<Rightarrow> error + string" where
  "handle_category_share P fetch intent =
     andThen (fetch (shares_request intent)) (\<lambda>json.
     andThen (get_prop json ''data'') (\<lambda>rows.
     andThen (Array_find (category_is P (category intent)) rows) (\<lambda>row.
       if \<not> truthy P row
       then Inr (''No data for '' @ category intent @ '' in '' @ year intent @ ''.'')
       else
         andThen (get_prop row ''total'') (\<lambda>total.
         andThen (get_prop row ''pct_of_year'') (\<lambda>pct.
           Inr (with_note (year intent = ''FY26'') '' ''
                  (category_share_msg P (category intent) (year intent) total pct)))))))"

subsection \<open>line_item_total\<close>

text \<open>
  \<^verbatim>\<open>`${intent.year} ${intent.category} -> ${intent.line_item}: ${USD(json.total)}. Source: v_line_items.`\<close>
  with the arrow U+2192.
\<close>

definition line_item_msg :: "'n platform \<Rightarrow> Year \<Rightarrow> string \<Rightarrow> string \<Rightarrow> 'n jsval \<Rightarrow> string" where
  "line_item_msg P y c l amount =
     y @ '' '' @ c @ '' '' @ arrow @ '' '' @ l @ '': '' @ USD P amount
     @ ''. Source: v_line_items.''"

definition line_item_request :: "'n Intent \<Rightarrow> request" where
  "line_item_request intent =
     \<lparr>path = ''/api/budget/line-item'',
      query = [(''year'', year intent), (''category'', category intent),
               (''lineItem'', line_item intent)]\<rparr>"

definition handle_line_item_total :: "'n platform \<Rightarrow> 'n fetch \<Rightarrow> 'n Intent \<Rightarrow> error + string" where
  "handle_line_item_total P fetch intent =
     andThen (fetch (line_item_request intent)) (\<lambda>json.
     andThen (get_prop json ''total'') (\<lambda>total.
     andThen (get_prop json ''partial'') (\<lambda>partial.
       Inr (with_note (truthy P partial) '' ''
              (line_item_msg P (year intent) (category intent) (line_item intent) total)))))"

subsection \<open>The resolver\<close>

text \<open>The \<open>switch\<close> on the action tag, with its \<open>default\<close> branch.\<close>

definition handleIntent :: "'n platform \<Rightarrow> 'n fetch \<Rightarrow> 'n Intent \<Rightarrow> error + string" where
  "handleIntent P fetch intent =
     (if action intent = JStr ''year_total'' then handle_year_total P fetch intent
      else if action intent = JStr ''yoy_difference'' then handle_yoy_difference P fetch intent
      else if action intent = JStr ''yoy_all'' then handle_yoy_all P fetch
      else if action intent = JStr ''category_rank'' then handle_category_rank P fetch intent
      else if action intent = JStr ''category_share'' then handle_category_share P fetch intent
      else if action intent = JStr ''line_item_total'' then handle_line_item_total P fetch intent
      else if action intent = JStr ''help'' then Inr (question intent)
      else Inr ''Sorry, I could not interpret that request.'')"

section \<open>The route handlers\<close>

text \<open>
  What a rejected query carries: an \<open>Error\<close> instance with its message, or any other
  thrown value.
\<close>

datatype 'n thrown = ErrorInstance string | OtherThrown "'n jsval"

text \<open>
  The query adapter \<open>@/src/lib/budget\<close> is outside the sources at hand. Its query
  functions are parameters: each answers rows or throws.
\<close>

record 'n lib =
  getYearTotals :: "'n thrown + 'n jsval"
  getYoY :: "'n thrown + 'n jsval"
  getCategoryRanking :: "Year \<Rightarrow> 'n \<Rightarrow> 'n thrown + 'n jsval"
  getCategoryShares :: "Year \<Rightarrow> 'n thrown + 'n jsval"
  getLineItemTotal :: "Year \<Rightarrow> string \<Rightarrow> string \<Rightarrow> 'n thrown + 'n jsval"
  getCategoryYoY :: "Year \<Rightarrow> Year \<Rightarrow> string \<Rightarrow> 'n thrown + 'n jsval"

text \<open>
  Modelled from the spec: \<open>isPartial\<close> of \<open>@/src/lib/budget\<close> is missing; the spec has it
  as a pure function of fiscal year identity with one hardcoded incomplete year, FY26.
\<close>

definition isPartial :: "Year \<Rightarrow> bool" where
  "isPartial y = (y = ''FY26'')"

text \<open>
  Modelled from the spec: \<open>usd\<close> of \<open>@/src/lib/budget\<close> is missing; the spec has one
  currency format, US dollars with thousands separators and \<open>$0\<close> for a missing amount.
\<close>

definition usd :: "'n platform \<Rightarrow> 'n jsval \<Rightarrow> string" where
  "usd P v = USD P v"

record 'n response =
  status :: nat
  body :: "'n jsval"

text \<open>\<open>NextResponse.json(body)\<close> answers with status 200.\<close>

definition ok :: "(string \<times> 'n jsval) list \<Rightarrow> 'n response" where
  "ok props = \<lparr>status = 200, body = JObj props\<rparr>"

text \<open>
  The \<open>catch\<close> block shared by the six handlers:
  \<^verbatim>\<open>details: error instanceof Error ? error.message : 'Unknown error'\<close>
\<close>

definition failure :: "string \<Rightarrow> 'n thrown \<Rightarrow> 'n response" where
  "failure msg err =
     \<lparr>status = 500,
      body = JObj [(''success'', JBool False),
                   (''error'', JStr msg),
                   (''details'', JStr (case err of ErrorInstance m \<Rightarrow> m
                                         | OtherThrown v \<Rightarrow> ''Unknown error''))]\<rparr>"

text \<open>\<open>req.nextUrl.searchParams.get(k) ?? d\<close>\<close>

definition param_or :: "request \<Rightarrow> string \<Rightarrow> string \<Rightarrow> string" where
  "param_or req k d = (case map_of (query req) k of None \<Rightarrow> d | Some v \<Rightarrow> v)"

definition GET_year_totals :: "'n lib \<Rightarrow> 'n response" where
  "GET_year_totals l =
     (case getYearTotals l of
        Inl err \<Rightarrow> failure ''Failed to fetch year totals'' err
      | Inr data \<Rightarrow>
          ok [(''success'', JBool True), (''data'', data),
              (''message'', JStr ''Year totals retrieved successfully'')])"

definition GET_yoy :: "'n lib \<Rightarrow> 'n response" where
  "GET_yoy l =
     (case getYoY l of
        Inl err \<Rightarrow> failure ''Failed to fetch year-over-year data'' err
      | Inr data \<Rightarrow>
          ok [(''success'', JBool True), (''data'', data),
              (''message'', JStr ''Year-over-year data retrieved successfully'')])"

text \<open>\<open>Number(req.nextUrl.searchParams.get('limit') ?? 10)\<close>\<close>

definition limit_param :: "'n platform \<Rightarrow> request \<Rightarrow> 'n" where
  "limit_param P req =
     (case map_of (query req) ''limit'' of
        None \<Rightarrow> Number_of_int P 10
      | Some s \<Rightarrow> Number_of_string P s)"

definition GET_category :: "'n platform \<Rightarrow> 'n lib \<Rightarrow> request \<Rightarrow> 'n response" where
  "GET_category P l req =
     (let year = param_or req ''year'' ''FY25'';
          limit = limit_param P req
      in case getCategoryRanking l year limit of
           Inl err \<Rightarrow> failure ''Failed to fetch category rankings'' err
         | Inr data \<Rightarrow>
             ok [(''success'', JBool True), (''year'', JStr year),
                 (''partial'', JBool (isPartial year)), (''data'', data),
                 (''message'', JStr (''Category rankings for '' @ year
                                      @ '' retrieved successfully''))])"

definition GET_shares :: "'n lib \<Rightarrow> request \<Rightarrow> 'n response" where
  "GET_shares l req =
     (let year = param_or req ''year'' ''FY25''
      in case getCategoryShares l year of
           Inl err \<Rightarrow> failure ''Failed to fetch category shares'' err
         | Inr data \<Rightarrow>
             ok [(''success'', JBool True), (''year'', JStr year),
                 (''partial'', JBool (isPartial year)), (''data'', data),
                 (''message'', JStr (''Category shares for '' @ year
                                      @ '' retrieved successfully''))])"

definition GET_line_item :: "'n platform \<Rightarrow> 'n lib \<Rightarrow> request \<Rightarrow> 'n response" where
  "GET_line_item P l req =
     (let year = param_or req ''year'' ''FY24'';
          category = param_or req ''category'' ''ADMINISTRATION'';
          lineItem = param_or req ''lineItem'' ''Payroll Taxes''
      in case getLineItemTotal l year category lineItem of
           Inl err \<Rightarrow> failure ''Failed to fetch line item total'' err
         | Inr amount \<Rightarrow>
             ok [(''success'', JBool True), (''year'', JStr year),
                 (''category'', JStr category), (''lineItem'', JStr lineItem),
                 (''total'', amount), (''formatted'', JStr (usd P amount)),
                 (''partial'', JBool (isPartial year)),
                 (''message'', JStr (''Line item total for '' @ lineItem @ '' in '' @ category
                                      @ '' ('' @ year @ '') retrieved successfully''))])"

definition GET_category_yoy :: "'n lib \<Rightarrow> request \<Rightarrow> 'n response" where
  "GET_category_yoy l req =
     (let year1 = param_or req ''year1'' ''FY24'';
          year2 = param_or req ''year2'' ''FY25'';
          category = param_or req ''category'' []
      in if category = []
         then \<lparr>status = 400,
               body = JObj [(''success'', JBool False),
                            (''error'', JStr ''Category parameter is required'')]\<rparr>
         else case getCategoryYoY l year1 year2 category of
                Inl err \<Rightarrow> failure ''Failed to fetch category year-over-year data'' err
              | Inr data \<Rightarrow>
                  ok [(''success'', JBool True), (''year1'', JStr year1),
                      (''year2'', JStr year2), (''category'', JStr category),
                      (''data'', data),
                      (''message'', JStr (''Category YoY change for '' @ category @ '' from ''
                                           @ year1 @ '' to '' @ year2
                                           @ '' retrieved successfully''))])"

section \<open>The resolver against the route handlers\<close>

text \<open>
  What \<open>JSON.parse(JSON.stringify(v))\<close> keeps of a body: a property whose value is
  \<open>undefined\<close> is dropped, \<open>undefined\<close> inside an array becomes \<open>null\<close>, and a number
  becomes what the platform writes and reads back (\<open>null\<close> for \<open>NaN\<close> and the
  infinities).
\<close>

fun over_the_wire :: "'n platform \<Rightarrow> 'n jsval \<Rightarrow> 'n jsval" where
  "over_the_wire P (JNum x) = JSON_number P x"
| "over_the_wire P (JArr xs) =
     JArr (map (\<lambda>x. if x = JUndef then JNull else over_the_wire P x) xs)"
| "over_the_wire P (JObj kvs) =
     JObj (map (\<lambda>kv. (fst kv, over_the_wire P (snd kv)))
             (filter (\<lambda>kv. snd kv \<noteq> JUndef) kvs))"
| "over_the_wire P v = v"

text \<open>
  The file-system routing of the handlers: \<open>app/api/budget/<name>/route.ts\<close> serves
  \<open>/api/budget/<name>\<close>. A path with no handler has no JSON body.
\<close>

definition serve :: "'n platform \<Rightarrow> 'n lib \<Rightarrow> request \<Rightarrow> 'n response option" where
  "serve P l req =
     (if path req = ''/api/budget/year-totals'' then Some (GET_year_totals l)
      else if path req = ''/api/budget/yoy'' then Some (GET_yoy l)
      else if path req = ''/api/budget/category'' then Some (GET_category P l req)
      else if path req = ''/api/budget/shares'' then Some (GET_shares l req)
      else if path req = ''/api/budget/line-item'' then Some (GET_line_item P l req)
      else if path req = ''/api/budget/category-yoy'' then Some (GET_category_yoy l req)
      else None)"

definition fetch_routes :: "'n platform \<Rightarrow> 'n lib \<Rightarrow> 'n fetch" where
  "fetch_routes P l req =
     (case serve P l req of
        None \<Rightarrow> Inl FetchFailed
      | Some res \<Rightarrow> Inr (over_the_wire P (body res)))"

section \<open>Vocabulary of the properties\<close>

text \<open>
  Whole amounts as en-US writes them: the decimal digits, with a comma before every
  block of three digits counted from the right, and a minus sign in front of a negative
  amount. \<open>group3\<close> works on the reversed digits.
\<close>

fun group3 :: "string \<Rightarrow> string" where
  "group3 (a # b # c # d # ds) = a # b # c # CHR '','' # group3 (d # ds)"
| "group3 ds = ds"

definition en_US_nat :: "nat \<Rightarrow> string" where
  "en_US_nat n = rev (group3 (rev (digits n)))"

definition en_US_int :: "int \<Rightarrow> string" where
  "en_US_int k = (if k < 0 then ''-'' else []) @ en_US_nat (nat \<bar>k\<bar>)"

definition show_int :: "int \<Rightarrow> string" where
  "show_int k = (if k < 0 then ''-'' else []) @ digits (nat \<bar>k\<bar>)"

text \<open>
  What the platform does with whole amounts: an integer below \<open>2^53\<close> in absolute value
  is a number, not \<open>NaN\<close>, and \<open>toLocaleString('en-US')\<close> writes it as above. Beyond
  that bound a double does not hold every integer.
\<close>

definition whole_amounts_en_US :: "'n platform \<Rightarrow> bool" where
  "whole_amounts_en_US P =
     (\<forall>k. \<bar>k\<bar> < 2 ^ 53 \<longrightarrow>
        \<not> isNaN P (Number_of_int P k) \<and> toLocaleString P (Number_of_int P k) = en_US_int k)"

text \<open>
  Reading a decimal numeral back, and the shape of a number written with thousands
  separators: from the right, blocks of exactly three digits, each preceded by a comma
  as long as digits remain, the leftmost block having one to three digits.
\<close>

definition is_digit :: "char \<Rightarrow> bool" where
  "is_digit c = (c \<in> set ''0123456789'')"

definition digit_val :: "char \<Rightarrow> nat" where
  "digit_val c = of_char c - 48"

definition nat_of_string :: "string \<Rightarrow> nat" where
  "nat_of_string s = foldl (\<lambda>a c. 10 * a + digit_val c) 0 s"

fun grouped_rev :: "string \<Rightarrow> bool" where
  "grouped_rev (a # b # c # s # d # ds) =
     (is_digit a \<and> is_digit b \<and> is_digit c \<and> s = CHR '','' \<and> grouped_rev (d # ds))"
| "grouped_rev ds = (ds \<noteq> [] \<and> length ds \<le> 3 \<and> list_all is_digit ds)"

definition thousands_separated :: "string \<Rightarrow> bool" where
  "thousands_separated s = grouped_rev (rev s)"

text \<open>The seven tags of \<open>Intent\<close> in \<open>src/bot/types.ts\<close>.\<close>

definition known_actions :: "string list" where
  "known_actions = [''year_total'', ''yoy_difference'', ''yoy_all'', ''category_rank'',
                    ''category_share'', ''line_item_total'', ''help'']"

text \<open>The value of \<open>v.k\<close> where the read does not throw.\<close>

definition propv :: "'n jsval \<Rightarrow> string \<Rightarrow> 'n jsval" where
  "propv v k = (case get_prop v k of Inl e \<Rightarrow> JUndef | Inr x \<Rightarrow> x)"


text \<open>
  The category name of a row, when it is a string, and the comparison of the
  category_share branch: equal names once the platform has put both in upper case.
\<close>

definition category_name :: "'n jsval \<Rightarrow> string option" where
  "category_name r = (case propv r ''category'' of JStr s \<Rightarrow> Some s | _ \<Rightarrow> None)"

definition same_category :: "'n platform \<Rightarrow> string \<Rightarrow> 'n jsval \<Rightarrow> bool" where
  "same_category P c r =
     (case category_name r of None \<Rightarrow> False | Some s \<Rightarrow> toUpperCase P s = toUpperCase P c)"

text \<open>
  Names that are equal but for the case of their letters: of the same length, and at
  every position the same character, or a small letter of the Latin alphabet on one
  side and its capital on the other.
\<close>

definition letter_pairs :: "(char \<times> char) list" where
  "letter_pairs = zip ''abcdefghijklmnopqrstuvwxyz'' ''ABCDEFGHIJKLMNOPQRSTUVWXYZ''"

definition same_letter :: "char \<Rightarrow> char \<Rightarrow> bool" where
  "same_letter a b = (a = b \<or> (a, b) \<in> set letter_pairs \<or> (b, a) \<in> set letter_pairs)"

definition eq_ignore_case :: "string \<Rightarrow> string \<Rightarrow> bool" where
  "eq_ignore_case s t = list_all2 same_letter s t"

definition names_match :: "string \<Rightarrow> 'n jsval \<Rightarrow> bool" where
  "names_match c r =
     (case category_name r of None \<Rightarrow> False | Some s \<Rightarrow> eq_ignore_case s c)"

text \<open>
  What the platform does with ASCII text: \<open>toUpperCase\<close> replaces each small letter
  by its capital and keeps every other character. On other text it follows the Unicode
  case mapping, of which nothing is used here.
\<close>

definition is_ascii :: "char \<Rightarrow> bool" where
  "is_ascii c = ((of_char c :: nat) < 128)"

definition upper_char :: "char \<Rightarrow> char" where
  "upper_char c =
     (case map_of (zip ''abcdefghijklmnopqrstuvwxyz'' ''ABCDEFGHIJKLMNOPQRSTUVWXYZ'') c of
        None \<Rightarrow> c
      | Some u \<Rightarrow> u)"

definition ascii_upper_case :: "'n platform \<Rightarrow> bool" where
  "ascii_upper_case P = (\<forall>s. list_all is_ascii s \<longrightarrow> toUpperCase P s = map upper_char s)"

definition ascii_name :: "'n jsval \<Rightarrow> bool" where
  "ascii_name r = (case category_name r of None \<Rightarrow> False | Some s \<Rightarrow> list_all is_ascii s)"

subsection \<open>Sample data\<close>

text \<open>
  A platform for the examples: the whole numbers and \<open>NaN\<close> (\<open>None\<close>), written in
  decimal, and text in ASCII. It does what the platform does with whole amounts below
  \<open>2^53\<close> and with ASCII text, which is all that the examples contain.
\<close>

definition decimal :: "string \<Rightarrow> int option" where
  "decimal s = (if list_all is_digit s then Some (int (nat_of_string s)) else None)"

definition whole_numbers :: "int option platform" where
  "whole_numbers =
     \<lparr>isNaN = (\<lambda>x. x = None),
      isZero = (\<lambda>x. x = Some 0),
      NaN = None,
      Number_of_int = Some,
      Number_of_string = decimal,
      Number_toString = (\<lambda>x. case x of None \<Rightarrow> ''NaN'' | Some k \<Rightarrow> show_int k),
      toLocaleString = (\<lambda>x. case x of None \<Rightarrow> ''NaN'' | Some k \<Rightarrow> en_US_int k),
      Number_minus = (\<lambda>a b. case a of None \<Rightarrow> None
                             | Some x \<Rightarrow> (case b of None \<Rightarrow> None | Some y \<Rightarrow> Some (x - y))),
      Number_ge0 = (\<lambda>x. case x of None \<Rightarrow> False | Some k \<Rightarrow> 0 \<le> k),
      Math_abs = map_option abs,
      toUpperCase = map upper_char,
      JSON_number = (\<lambda>x. case x of None \<Rightarrow> JNull | Some k \<Rightarrow> JNum (Some k))\<rparr>"

text \<open>The figures of \<open>tests/budget.spec.ts\<close>, with whole percentages.\<close>

definition sample_year_totals :: "int option jsval" where
  "sample_year_totals =
     JArr [JObj [(''fiscal_year'', JStr ''FY24''), (''total'', JNum (Some 5391635))],
           JObj [(''fiscal_year'', JStr ''FY25''), (''total'', JNum (Some 6894068))],
           JObj [(''fiscal_year'', JStr ''FY26''), (''total'', JNum (Some 2721944))]]"

definition sample_yoy :: "int option jsval" where
  "sample_yoy =
     JArr [JObj [(''fiscal_year'', JStr ''FY24''), (''total'', JNum (Some 5391635)),
                 (''yoy_change'', JNull)],
           JObj [(''fiscal_year'', JStr ''FY25''), (''total'', JNum (Some 6894068)),
                 (''yoy_change'', JNum (Some 1502433))],
           JObj [(''fiscal_year'', JStr ''FY26''), (''total'', JNum (Some 2721944)),
                 (''yoy_change'', JNum (Some (- 4172124)))]]"

definition sample_ranking :: "int option jsval list" where
  "sample_ranking =
     [JObj [(''category'', JStr ''TAXES''), (''total'', JNum (Some 1481200))],
      JObj [(''category'', JStr ''POLICE DEPARTMENT''), (''total'', JNum (Some 1249212))]]"

definition sample_shares :: "int option jsval list" where
  "sample_shares =
     [JObj [(''category'', JStr ''TAXES''), (''total'', JNum (Some 1481200)),
            (''pct_of_year'', JNum (Some 21))],
      JObj [(''category'', JStr ''POLICE DEPARTMENT''), (''total'', JNum (Some 1249212)),
            (''pct_of_year'', JNum (Some 18))]]"

definition sample_lib :: "int option lib" where
  "sample_lib =
     \<lparr>getYearTotals = Inr sample_year_totals,
      getYoY = Inr sample_yoy,
      getCategoryRanking = (\<lambda>y n. Inr (JArr (if y = ''FY25'' then sample_ranking else []))),
      getCategoryShares = (\<lambda>y. Inr (JArr (if y = ''FY25'' then sample_shares else []))),
      getLineItemTotal = (\<lambda>y c i. Inr (JNum (Some (if y = ''FY24'' \<and> c = ''ADMINISTRATION''
                                                     \<and> i = ''Payroll Taxes'' then 20389 else 0)))),
      getCategoryYoY = (\<lambda>y1 y2 c. Inr (JObj []))\<rparr>"

text \<open>An adapter whose queries reject with the error object of the database client.\<close>

definition denied :: "int option jsval" where
  "denied = JObj [(''message'', JStr ''permission denied for view v_year_totals''),
                  (''code'', JStr ''42501'')]"

definition failing_lib :: "int option lib" where
  "failing_lib =
     \<lparr>getYearTotals = Inl (OtherThrown denied),
      getYoY = Inl (OtherThrown denied),
      getCategoryRanking = (\<lambda>y n. Inl (OtherThrown denied)),
      getCategoryShares = (\<lambda>y. Inl (OtherThrown denied)),
      getLineItemTotal = (\<lambda>y c i. Inl (OtherThrown denied)),
      getCategoryYoY = (\<lambda>y1 y2 c. Inl (ErrorInstance ''connection refused''))\<rparr>"

text \<open>The variants of \<open>Intent\<close>, with the fields of the other variants left empty.\<close>

definition no_intent :: "int option Intent" where
  "no_intent = \<lparr>action = JUndef, year = [], partial_data = None, year_from = [], year_to = [],
                top_n = None, category = [], line_item = [], question = []\<rparr>"

definition Year_total :: "Year \<Rightarrow> int option Intent" where
  "Year_total y = no_intent\<lparr>action := JStr ''year_total'', year := y\<rparr>"

definition Yoy_difference :: "Year \<Rightarrow> Year \<Rightarrow> int option Intent" where
  "Yoy_difference f t =
     no_intent\<lparr>action := JStr ''yoy_difference'', year_from := f, year_to := t\<rparr>"

definition Yoy_all :: "int option Intent" where
  "Yoy_all = no_intent\<lparr>action := JStr ''yoy_all''\<rparr>"

definition Category_rank :: "Year \<Rightarrow> int option \<Rightarrow> int option Intent" where
  "Category_rank y n =
     no_intent\<lparr>action := JStr ''category_rank'', year := y,
               top_n := (case n of None \<Rightarrow> None | Some k \<Rightarrow> Some (Some k))\<rparr>"

definition Category_share :: "Year \<Rightarrow> string \<Rightarrow> int option Intent" where
  "Category_share y c = no_intent\<lparr>action := JStr ''category_share'', year := y, category := c\<rparr>"

definition Line_item_total :: "Year \<Rightarrow> string \<Rightarrow> string \<Rightarrow> int option Intent" where
  "Line_item_total y c l =
     no_intent\<lparr>action := JStr ''line_item_total'', year := y, category := c, line_item := l\<rparr>"

definition Help :: "string \<Rightarrow> int option Intent" where
  "Help q = no_intent\<lparr>action := JStr ''help'', question := q\<rparr>"

section \<open>The currency format\<close>

lemma digit_char_cases:
  assumes "d < 10"
  shows "is_digit (digit_char d) \<and> digit_val (digit_char d) = d"
proof -
  from assms have "d \<in> {0,1,2,3,4,5,6,7,8,9}" by auto
  then show ?thesis
    by (auto simp: digit_char_def is_digit_def digit_val_def)
qed

lemma digits_all_digit: "list_all is_digit (digits n)"
proof (induction n rule: digits.induct)
  case (1 n)
  show ?case
  proof (cases "n < 10")
    case True
    then show ?thesis by (simp add: digits.simps [of n] digit_char_cases)
  next
    case False
    with 1 show ?thesis by (simp add: digits.simps [of n] digit_char_cases)
  qed
qed

lemma digits_nonempty: "digits n \<noteq> []"
  by (simp add: digits.simps [of n])

lemma nat_of_string_snoc: "nat_of_string (s @ [c]) = 10 * nat_of_string s + digit_val c"
  by (simp add: nat_of_string_def)

lemma nat_of_string_digits: "nat_of_string (digits n) = n"
proof (induction n rule: digits.induct)
  case (1 n)
  show ?case
  proof (cases "n < 10")
    case True
    then show ?thesis by (simp add: digits.simps [of n] nat_of_string_def digit_char_cases)
  next
    case False
    with 1 show ?thesis
      by (simp add: digits.simps [of n] nat_of_string_snoc digit_char_cases)
  qed
qed

lemma comma_not_digit: "is_digit c \<Longrightarrow> c \<noteq> CHR '',''"
  by (auto simp: is_digit_def)

lemma group3_Cons: "\<exists>ys. group3 (d # ds) = d # ys"
  by (cases "d # ds" rule: group3.cases) auto

lemma group3_grouped: "list_all is_digit ds \<Longrightarrow> ds \<noteq> [] \<Longrightarrow> grouped_rev (group3 ds)"
proof (induction ds rule: group3.induct)
  case (1 a b c d ds)
  obtain ys where ys: "group3 (d # ds) = d # ys"
    using group3_Cons by blast
  from 1 have "grouped_rev (d # ys)" by (simp add: ys)
  with 1 show ?case by (simp add: ys)
qed auto

lemma group3_filter:
  "list_all is_digit ds \<Longrightarrow> filter (\<lambda>c. c \<noteq> CHR '','') (group3 ds) = ds"
  by (induction ds rule: group3.induct) (auto simp: comma_not_digit list_all_iff filter_id_conv)

lemma en_US_nat_separated: "thousands_separated (en_US_nat n)"
  by (simp add: thousands_separated_def en_US_nat_def group3_grouped digits_all_digit digits_nonempty)

lemma en_US_nat_digits: "filter (\<lambda>c. c \<noteq> CHR '','') (en_US_nat n) = digits n"
proof -
  have "filter (\<lambda>c. c \<noteq> CHR '','') (group3 (rev (digits n))) = rev (digits n)"
    by (rule group3_filter) (simp add: digits_all_digit)
  then show ?thesis
    by (simp add: en_US_nat_def rev_filter [symmetric])
qed

lemma whole_numbers_en_US: "whole_amounts_en_US whole_numbers"
  by (simp add: whole_amounts_en_US_def whole_numbers_def)

text \<open>
  C5. The currency formatter writes \<open>$0\<close> for \<open>null\<close>, \<open>undefined\<close> and \<open>NaN\<close>, and
  for every other number a dollar sign followed by what \<open>toLocaleString('en-US')\<close>
  writes for it. For a whole amount, which the platform writes in en-US as its digits
  in groups, that is a dollar sign, a minus sign when the amount is negative, and the
  decimal digits with a comma before every block of three digits counted from the right.
\<close>

theorem USD_format:
  "USD P JNull = ''$0'' \<and> USD P JUndef = ''$0''
   \<and> (isNaN P x \<longrightarrow> USD P (JNum x) = ''$0'')
   \<and> (\<not> isNaN P x \<longrightarrow> USD P (JNum x) = ''$'' @ toLocaleString P x)
   \<and> (whole_amounts_en_US P \<and> \<bar>k\<bar> < 2 ^ 53 \<longrightarrow>
        USD P (JNum (Number_of_int P k))
          = ''$'' @ (if k < 0 then ''-'' else []) @ en_US_nat (nat \<bar>k\<bar>)
        \<and> thousands_separated (en_US_nat (nat \<bar>k\<bar>))
        \<and> nat_of_string (filter (\<lambda>c. c \<noteq> CHR '','') (en_US_nat (nat \<bar>k\<bar>))) = nat \<bar>k\<bar>)"
  by (simp add: USD_def whole_amounts_en_US_def en_US_int_def en_US_nat_separated
      en_US_nat_digits nat_of_string_digits)

lemma digits_6894068: "digits 6894068 = ''6894068''"
  by (simp add: digits.simps digit_char_def)

lemma en_US_nat_6894068: "en_US_nat 6894068 = ''6,894,068''"
  by (simp add: en_US_nat_def digits_6894068)

theorem USD_format_witness:
  "USD whole_numbers JNull = ''$0'' \<and> USD whole_numbers JUndef = ''$0''
   \<and> isNaN whole_numbers None \<and> USD whole_numbers (JNum None) = ''$0''
   \<and> whole_amounts_en_US whole_numbers \<and> \<bar>6894068 :: int\<bar> < 2 ^ 53
   \<and> USD whole_numbers (JNum (Some 6894068)) = ''$6,894,068''
   \<and> thousands_separated ''6,894,068''
   \<and> nat_of_string ''6894068'' = 6894068"
proof -
  have n: "isNaN whole_numbers None" by (simp add: whole_numbers_def)
  have k: "\<bar>6894068 :: int\<bar> < 2 ^ 53" by simp
  from USD_format [of whole_numbers None 6894068] n k whole_numbers_en_US
  show ?thesis
    by (simp add: en_US_nat_6894068 whole_numbers_def)
qed

section \<open>The default branch\<close>

text \<open>
  C10. An intent whose action tag is none of the seven tags is answered with the fixed
  fallback string; the resolver neither throws nor fetches.
\<close>

theorem handleIntent_fallback:
  "action intent \<notin> JStr ` set known_actions \<Longrightarrow>
   handleIntent P fetch intent = Inr ''Sorry, I could not interpret that request.''"
  by (simp add: handleIntent_def known_actions_def)

theorem handleIntent_fallback_witness:
  "action (no_intent\<lparr>action := JStr ''forecast''\<rparr>) \<notin> JStr ` set known_actions
   \<and> handleIntent whole_numbers (fetch_routes whole_numbers sample_lib) (no_intent\<lparr>action := JStr ''forecast''\<rparr>)
       = Inr ''Sorry, I could not interpret that request.''"
proof -
  have h: "action (no_intent\<lparr>action := JStr ''forecast''\<rparr>) \<notin> JStr ` set known_actions"
    by (simp add: known_actions_def)
  show ?thesis
    using h handleIntent_fallback [OF h, of whole_numbers "fetch_routes whole_numbers sample_lib"] by simp
qed

section \<open>The route handlers on failure\<close>

text \<open>
  C8. A request to the category year-over-year handler without a \<open>category\<close> parameter is
  answered with status 400 and the body \<open>{success: false, error: 'Category parameter is
  required'}\<close>, whatever the adapter would do.
\<close>

theorem category_yoy_missing_category:
  "map_of (query req) ''category'' = None \<Longrightarrow>
   GET_category_yoy l req =
     \<lparr>status = 400,
      body = JObj [(''success'', JBool False),
                   (''error'', JStr ''Category parameter is required'')]\<rparr>"
  by (simp add: GET_category_yoy_def param_or_def)

theorem category_yoy_missing_category_witness:
  "map_of (query \<lparr>path = ''/api/budget/category-yoy'', query = [(''year1'', ''FY24'')]\<rparr>)
     ''category'' = None
   \<and> GET_category_yoy failing_lib
        \<lparr>path = ''/api/budget/category-yoy'', query = [(''year1'', ''FY24'')]\<rparr> =
     \<lparr>status = 400,
      body = JObj [(''success'', JBool False),
                   (''error'', JStr ''Category parameter is required'')]\<rparr>"
proof -
  have h: "map_of (query \<lparr>path = ''/api/budget/category-yoy'', query = [(''year1'', ''FY24'')]\<rparr>)
             ''category'' = None"
    by simp
  show ?thesis
    using h category_yoy_missing_category [OF h, of failing_lib] by simp
qed

text \<open>
  C9, as the claim has it, fails: a query that rejects with a value that is no \<open>Error\<close>
  instance, here the error object of the database client with its own \<open>message\<close>, is
  answered with \<open>details: 'Unknown error'\<close>.
\<close>

theorem details_not_message_counterexample:
  "getYearTotals failing_lib = Inl (OtherThrown denied)
   \<and> get_prop denied ''message'' = Inr (JStr ''permission denied for view v_year_totals'')
   \<and> status (GET_year_totals failing_lib) = 500
   \<and> get_prop (body (GET_year_totals failing_lib)) ''details'' = Inr (JStr ''Unknown error'')"
  by (simp add: failing_lib_def denied_def GET_year_totals_def failure_def)

text \<open>
  C9, amended. When the query of a handler throws, the handler answers with status 500
  and the body \<open>{success: false, error, details}\<close>, where \<open>error\<close> is the fixed text of
  the handler and \<open>details\<close> is the message of the thrown value when that is an \<open>Error\<close>
  instance and \<open>'Unknown error'\<close> otherwise. For the category year-over-year handler
  this is the answer when the \<open>category\<close> parameter is present and not empty.
\<close>

theorem query_failure_is_500:
  "(getYearTotals l = Inl err \<longrightarrow>
      GET_year_totals l = failure ''Failed to fetch year totals'' err)
   \<and> (getYoY l = Inl err \<longrightarrow>
      GET_yoy l = failure ''Failed to fetch year-over-year data'' err)
   \<and> (getCategoryRanking l (param_or req ''year'' ''FY25'') (limit_param P req) = Inl err \<longrightarrow>
      GET_category P l req = failure ''Failed to fetch category rankings'' err)
   \<and> (getCategoryShares l (param_or req ''year'' ''FY25'') = Inl err \<longrightarrow>
      GET_shares l req = failure ''Failed to fetch category shares'' err)
   \<and> (getLineItemTotal l (param_or req ''year'' ''FY24'')
         (param_or req ''category'' ''ADMINISTRATION'')
         (param_or req ''lineItem'' ''Payroll Taxes'') = Inl err \<longrightarrow>
      GET_line_item P l req = failure ''Failed to fetch line item total'' err)
   \<and> (param_or req ''category'' [] \<noteq> [] \<and>
       getCategoryYoY l (param_or req ''year1'' ''FY24'') (param_or req ''year2'' ''FY25'')
         (param_or req ''category'' []) = Inl err \<longrightarrow>
      GET_category_yoy l req = failure ''Failed to fetch category year-over-year data'' err)
   \<and> status (failure msg err) = 500
   \<and> body (failure msg err) =
       JObj [(''success'', JBool False), (''error'', JStr msg),
             (''details'', JStr (case err of ErrorInstance m \<Rightarrow> m
                                   | OtherThrown v \<Rightarrow> ''Unknown error''))]"
  by (simp add: GET_year_totals_def GET_yoy_def GET_category_def GET_shares_def
      GET_line_item_def GET_category_yoy_def failure_def Let_def)

theorem query_failure_is_500_witness:
  "GET_category_yoy failing_lib
     \<lparr>path = ''/api/budget/category-yoy'', query = [(''category'', ''TAXES'')]\<rparr> =
     \<lparr>status = 500,
      body = JObj [(''success'', JBool False),
                   (''error'', JStr ''Failed to fetch category year-over-year data''),
                   (''details'', JStr ''connection refused'')]\<rparr>
   \<and> GET_shares failing_lib \<lparr>path = ''/api/budget/shares'', query = []\<rparr> =
     \<lparr>status = 500,
      body = JObj [(''success'', JBool False),
                   (''error'', JStr ''Failed to fetch category shares''),
                   (''details'', JStr ''Unknown error'')]\<rparr>"
proof -
  let ?r1 = "\<lparr>path = ''/api/budget/category-yoy'', query = [(''category'', ''TAXES'')]\<rparr>"
  let ?r2 = "\<lparr>path = ''/api/budget/shares'', query = []\<rparr>"
  have a: "param_or ?r1 ''category'' [] \<noteq> [] \<and>
           getCategoryYoY failing_lib (param_or ?r1 ''year1'' ''FY24'')
             (param_or ?r1 ''year2'' ''FY25'') (param_or ?r1 ''category'' [])
           = Inl (ErrorInstance ''connection refused'')"
    by (simp add: param_or_def failing_lib_def)
  have b: "getCategoryShares failing_lib (param_or ?r2 ''year'' ''FY25'') = Inl (OtherThrown denied)"
    by (simp add: failing_lib_def)
  from a query_failure_is_500 [of failing_lib "ErrorInstance ''connection refused''" ?r1 whole_numbers]
  have 1: "GET_category_yoy failing_lib ?r1 =
             failure ''Failed to fetch category year-over-year data''
               (ErrorInstance ''connection refused'')"
    by blast
  from b query_failure_is_500 [of failing_lib "OtherThrown denied" ?r2 whole_numbers]
  have 2: "GET_shares failing_lib ?r2 = failure ''Failed to fetch category shares'' (OtherThrown denied)"
    by blast
  show ?thesis
    unfolding 1 2 by (simp add: failure_def)
qed

section \<open>The shape of the answers\<close>

lemma andThen_Inr_iff: "andThen m k = Inr y \<longleftrightarrow> (\<exists>x. m = Inr x \<and> k x = Inr y)"
  by (cases m) (simp_all add: andThen_def)

lemma andThen_simps:
  "andThen (Inr x) k = k x"
  "andThen (Inl e) k = Inl e"
  by (simp_all add: andThen_def)

lemma get_prop_propv: "get_prop v k = Inr x \<Longrightarrow> propv v k = x"
  by (simp add: propv_def)

lemma year_total_shape:
  assumes "handle_year_total P fetch i = Inr ans"
  shows "\<exists>t. ans = with_note (year i = ''FY26'') '' '' (year_total_msg P (year i) t)"
  using assms by (auto simp: handle_year_total_def andThen_Inr_iff)

lemma yoy_difference_shape:
  assumes "handle_yoy_difference P fetch i = Inr ans"
    and "ans \<noteq> ''I could not find the requested years.''"
  shows "\<exists>d f t. ans = with_note (year_to i = ''FY26'' \<or> year_from i = ''FY26'') '' ''
                         (yoy_difference_msg P (year_from i) (year_to i) d f t)"
proof -
  from assms(1) obtain toRow fromRow where
    r: "(if \<not> truthy P toRow \<or> \<not> truthy P fromRow
         then Inr ''I could not find the requested years.''
         else andThen (get_prop toRow ''total'') (\<lambda>toTotal.
              andThen (get_prop fromRow ''total'') (\<lambda>fromTotal.
                let delta = js_minus P toTotal fromTotal
                in Inr (with_note (year_to i = ''FY26'' \<or> year_from i = ''FY26'') '' ''
                          (yoy_difference_msg P (year_from i) (year_to i) delta
                             fromTotal toTotal))))) = Inr ans"
    unfolding handle_yoy_difference_def andThen_Inr_iff by blast
  with assms(2) show ?thesis
    by (auto simp: andThen_Inr_iff Let_def split: if_splits)
qed

lemma some_first_iff:
  "some_first (fiscal_year_is y) rows = Inr b \<Longrightarrow>
   b = (\<exists>r\<in>set rows. get_prop r ''fiscal_year'' = Inr (JStr y))"
proof (induction rows)
  case Nil
  then show ?case by simp
next
  case (Cons r rows)
  then show ?case
    by (cases "get_prop r ''fiscal_year''")
       (auto simp: fiscal_year_is_def andThen_simps split: if_splits)
qed

lemma yoy_all_shape:
  assumes "handle_yoy_all P fetch = Inr ans"
  shows "\<exists>rows ls. fetch yoy_request = Inr (JArr rows)
           \<and> ans = with_note (\<exists>r\<in>set rows. get_prop r ''fiscal_year'' = Inr (JStr ''FY26''))
                     newline (yoy_all_msg ls)"
proof -
  from assms obtain v ls b where v: "fetch yoy_request = Inr v"
    and ls: "Array_map (yoy_line P) v = Inr ls"
    and b: "Array_some (fiscal_year_is ''FY26'') v = Inr b"
    and ans: "ans = with_note b newline (yoy_all_msg ls)"
    unfolding handle_yoy_all_def andThen_Inr_iff by auto
  from ls obtain rows where rows: "v = JArr rows"
    by (cases v) (simp_all add: Array_map_def)
  from b rows have "b = (\<exists>r\<in>set rows. get_prop r ''fiscal_year'' = Inr (JStr ''FY26''))"
    by (simp add: Array_some_def some_first_iff)
  with v rows ans show ?thesis by blast
qed

lemma category_rank_shape:
  assumes "handle_category_rank P fetch i = Inr ans"
    and "ans \<noteq> ''No categories found for '' @ year i @ ''.''"
  shows "\<exists>json list. fetch (category_request P i) = Inr json
           \<and> ans = with_note (truthy P (propv json ''partial'')) newline
                     (category_rank_msg P (limit_of P i) (year i) list)"
proof -
  from assms(1) obtain json rows where json: "fetch (category_request P i) = Inr json"
    and r: "(if no_length P rows then Inr (''No categories found for '' @ year i @ ''.'')
             else andThen (Array_map (rank_line P) rows) (\<lambda>lines.
                  andThen (get_prop json ''partial'') (\<lambda>partial.
                    Inr (with_note (truthy P partial) newline
                           (category_rank_msg P (limit_of P i) (year i) (join newline lines))))))
            = Inr ans"
    unfolding handle_category_rank_def andThen_Inr_iff by blast
  from r assms(2) obtain ls p where "get_prop json ''partial'' = Inr p"
    and "ans = with_note (truthy P p) newline (category_rank_msg P (limit_of P i) (year i) (join newline ls))"
    by (auto simp: andThen_Inr_iff split: if_splits)
  with json show ?thesis
    by (auto dest: get_prop_propv)
qed

lemma category_share_shape:
  assumes "handle_category_share P fetch i = Inr ans"
    and "ans \<noteq> ''No data for '' @ category i @ '' in '' @ year i @ ''.''"
  shows "\<exists>t p. ans = with_note (year i = ''FY26'') '' ''
                       (category_share_msg P (category i) (year i) t p)"
proof -
  from assms(1) obtain row where
    r: "(if \<not> truthy P row then Inr (''No data for '' @ category i @ '' in '' @ year i @ ''.'')
         else andThen (get_prop row ''total'') (\<lambda>total.
              andThen (get_prop row ''pct_of_year'') (\<lambda>pct.
                Inr (with_note (year i = ''FY26'') '' ''
                       (category_share_msg P (category i) (year i) total pct))))) = Inr ans"
    unfolding handle_category_share_def andThen_Inr_iff by blast
  with assms(2) show ?thesis
    by (auto simp: andThen_Inr_iff split: if_splits)
qed

lemma line_item_total_shape:
  assumes "handle_line_item_total P fetch i = Inr ans"
  shows "\<exists>json t. fetch (line_item_request i) = Inr json
           \<and> ans = with_note (truthy P (propv json ''partial'')) '' ''
                     (line_item_msg P (year i) (category i) (line_item i) t)"
  using assms
  by (auto simp: handle_line_item_total_def andThen_Inr_iff dest: get_prop_propv)

section \<open>Citations and the partial-data note\<close>

lemma sublist_with_note: "sublist c m \<Longrightarrow> sublist c (with_note b sep m)"
proof -
  assume "sublist c m"
  then obtain ps ss where "m = ps @ c @ ss" by (auto simp: sublist_def)
  then have "with_note b sep m = ps @ c @ (ss @ (if b then sep @ PARTIAL_NOTE else []))"
    by (simp add: with_note_def)
  then show ?thesis by (simp only: sublist_appendI)
qed

lemma sublist_tail: "m = ps @ c \<Longrightarrow> sublist c m"
  by simp

lemma cites:
  "sublist (''Source: v_year_totals('' @ y @ '').'') (year_total_msg P y t)"
  "sublist ''Source: v_year_yoy.'' (yoy_difference_msg P f u d a b)"
  "sublist ''Source: v_year_yoy.'' (yoy_all_msg ls)"
  "sublist (''Source: v_category_totals('' @ y @ '').'') (category_rank_msg P n y list)"
  "sublist (''Source: v_category_shares('' @ y @ '').'') (category_share_msg P c y t p)"
  "sublist ''Source: v_line_items.'' (line_item_msg P y c l t)"
proof -
  show "sublist (''Source: v_year_totals('' @ y @ '').'') (year_total_msg P y t)"
    by (rule sublist_tail [where ps = "''Total '' @ y @ '' budget: '' @ USD P t @ ''. ''"])
       (simp add: year_total_msg_def)
  show "sublist ''Source: v_year_yoy.'' (yoy_difference_msg P f u d a b)"
    by (rule sublist_tail [where ps = "''Change from '' @ f @ '' to '' @ u @ '': '' @ USD P d
          @ '' ('' @ USD P a @ '' '' @ arrow @ '' '' @ USD P b @ ''). ''"])
       (simp add: yoy_difference_msg_def)
  show "sublist ''Source: v_year_yoy.'' (yoy_all_msg ls)"
    by (rule sublist_tail [where ps = "''Year-over-year changes:'' @ newline @ ''- ''
          @ join (newline @ ''- '') ls @ newline"])
       (simp add: yoy_all_msg_def)
  show "sublist (''Source: v_category_totals('' @ y @ '').'') (category_rank_msg P n y list)"
    by (rule sublist_tail [where ps = "''Top '' @ Number_toString P n @ '' categories in '' @ y @ '':''
          @ newline @ list @ newline"])
       (simp add: category_rank_msg_def)
  show "sublist (''Source: v_category_shares('' @ y @ '').'') (category_share_msg P c y t p)"
    by (rule sublist_tail [where ps = "c @ '' in '' @ y @ '': '' @ USD P t @ '' ('' @ ToString P p
          @ ''% of total). ''"])
       (simp add: category_share_msg_def)
  show "sublist ''Source: v_line_items.'' (line_item_msg P y c l t)"
    by (rule sublist_tail [where ps = "y @ '' '' @ c @ '' '' @ arrow @ '' '' @ l @ '': ''
          @ USD P t @ ''. ''"])
       (simp add: line_item_msg_def)
qed

lemma suffix_with_note:
  assumes "\<not> suffix PARTIAL_NOTE m"
  shows "suffix PARTIAL_NOTE (with_note b sep m) \<longleftrightarrow> b"
proof (cases b)
  case True
  have "suffix PARTIAL_NOTE ((m @ sep) @ PARTIAL_NOTE)" by (rule suffixI) simp
  with True show ?thesis by (simp add: with_note_def)
next
  case False
  with assms show ?thesis by (simp add: with_note_def)
qed

lemma no_note:
  "\<not> suffix PARTIAL_NOTE (year_total_msg P y t)"
  "\<not> suffix PARTIAL_NOTE (yoy_difference_msg P f u d a b)"
  "\<not> suffix PARTIAL_NOTE (yoy_all_msg ls)"
  "\<not> suffix PARTIAL_NOTE (category_rank_msg P n y list)"
  "\<not> suffix PARTIAL_NOTE (category_share_msg P c y t p)"
  "\<not> suffix PARTIAL_NOTE (line_item_msg P y c l t)"
  by (simp_all add: suffix_to_prefix PARTIAL_NOTE_def year_total_msg_def
      yoy_difference_msg_def yoy_all_msg_def category_rank_msg_def category_share_msg_def
      line_item_msg_def)

section \<open>Evaluation on concrete inputs\<close>

lemmas eval_defs =
  handleIntent_def handle_year_total_def handle_yoy_difference_def handle_yoy_all_def
  handle_category_rank_def handle_category_share_def handle_line_item_total_def
  year_totals_request_def yoy_request_def category_request_def shares_request_def
  line_item_request_def limit_of_def limit_param_def fetch_routes_def serve_def
  GET_year_totals_def GET_yoy_def GET_category_def GET_shares_def GET_line_item_def
  GET_category_yoy_def param_or_def ok_def failure_def isPartial_def usd_def andThen_def
  opt_prop_def nullish_def no_length_def Array_find_def Array_map_def Array_some_def
  fiscal_year_is_def category_is_def rank_line_def yoy_line_def with_note_def
  year_total_msg_def yoy_difference_msg_def yoy_all_msg_def category_rank_msg_def
  category_share_msg_def line_item_msg_def USD_def upper_char_def ToNumber_def js_minus_def
  js_ge0_def js_abs_def show_int_def en_US_int_def en_US_nat_def digits.simps digit_char_def
  decimal_def is_digit_def nat_of_string_def digit_val_def whole_numbers_def
  sample_lib_def sample_year_totals_def sample_yoy_def sample_ranking_def sample_shares_def
  failing_lib_def denied_def no_intent_def Year_total_def Yoy_difference_def Yoy_all_def
  Category_rank_def Category_share_def Line_item_total_def Help_def
  PARTIAL_NOTE_def newline_def arrow_def minus_sign_def Let_def

lemma handleIntent_branch:
  "action i = JStr ''year_total'' \<Longrightarrow> handleIntent P fetch i = handle_year_total P fetch i"
  "action i = JStr ''yoy_difference'' \<Longrightarrow> handleIntent P fetch i = handle_yoy_difference P fetch i"
  "action i = JStr ''yoy_all'' \<Longrightarrow> handleIntent P fetch i = handle_yoy_all P fetch"
  "action i = JStr ''category_rank'' \<Longrightarrow> handleIntent P fetch i = handle_category_rank P fetch i"
  "action i = JStr ''category_share'' \<Longrightarrow> handleIntent P fetch i = handle_category_share P fetch i"
  "action i = JStr ''line_item_total'' \<Longrightarrow> handleIntent P fetch i = handle_line_item_total P fetch i"
  "action i = JStr ''help'' \<Longrightarrow> handleIntent P fetch i = Inr (question i)"
  by (simp_all add: handleIntent_def)

text \<open>
  C1, as the claim has it, fails: the help answer is the question itself, and the
  no-data answers name no view.
\<close>

theorem no_citation_counterexample:
  "handleIntent whole_numbers (fetch_routes whole_numbers sample_lib) (Help ''What can you do?'')
     = Inr ''What can you do?''
   \<and> \<not> sublist ''Source:'' ''What can you do?''
   \<and> handleIntent whole_numbers (fetch_routes whole_numbers sample_lib) (Category_share ''FY26'' ''PARKS'')
     = Inr ''No data for PARKS in FY26.''
   \<and> \<not> sublist ''Source:'' ''No data for PARKS in FY26.''"
  by (simp add: eval_defs sublist_code)

text \<open>
  C1, amended. Every answer that reports figures contains the clause
  \<open>Source: <view>.\<close> of its view: the answers to year_total, yoy_all and
  line_item_total, and the answers to yoy_difference, category_rank and category_share
  other than their not-found and no-data messages.
\<close>

theorem data_answers_cite_view:
  assumes "handleIntent P fetch i = Inr ans"
  shows "(action i = JStr ''year_total'' \<longrightarrow>
            sublist (''Source: v_year_totals('' @ year i @ '').'') ans)
       \<and> (action i = JStr ''yoy_difference'' \<and> ans \<noteq> ''I could not find the requested years.'' \<longrightarrow>
            sublist ''Source: v_year_yoy.'' ans)
       \<and> (action i = JStr ''yoy_all'' \<longrightarrow> sublist ''Source: v_year_yoy.'' ans)
       \<and> (action i = JStr ''category_rank'' \<and> ans \<noteq> ''No categories found for '' @ year i @ ''.'' \<longrightarrow>
            sublist (''Source: v_category_totals('' @ year i @ '').'') ans)
       \<and> (action i = JStr ''category_share''
            \<and> ans \<noteq> ''No data for '' @ category i @ '' in '' @ year i @ ''.'' \<longrightarrow>
            sublist (''Source: v_category_shares('' @ year i @ '').'') ans)
       \<and> (action i = JStr ''line_item_total'' \<longrightarrow> sublist ''Source: v_line_items.'' ans)"
proof (intro conjI impI)
  assume "action i = JStr ''year_total''"
  with assms have "handle_year_total P fetch i = Inr ans" by (simp add: handleIntent_branch)
  then obtain t where
    ans: "ans = with_note (year i = ''FY26'') '' '' (year_total_msg P (year i) t)"
    using year_total_shape by blast
  show "sublist (''Source: v_year_totals('' @ year i @ '').'') ans"
    unfolding ans by (rule sublist_with_note [OF cites(1)])
next
  assume "action i = JStr ''yoy_difference'' \<and> ans \<noteq> ''I could not find the requested years.''"
  with assms have "handle_yoy_difference P fetch i = Inr ans"
    and "ans \<noteq> ''I could not find the requested years.''"
    by (simp_all add: handleIntent_branch)
  then obtain d f t where
    ans: "ans = with_note (year_to i = ''FY26'' \<or> year_from i = ''FY26'') '' ''
                  (yoy_difference_msg P (year_from i) (year_to i) d f t)"
    using yoy_difference_shape by blast
  show "sublist ''Source: v_year_yoy.'' ans"
    unfolding ans by (rule sublist_with_note [OF cites(2)])
next
  assume "action i = JStr ''yoy_all''"
  with assms have "handle_yoy_all P fetch = Inr ans" by (simp add: handleIntent_branch)
  then obtain rows ls where "fetch yoy_request = Inr (JArr rows)"
    and ans: "ans = with_note (\<exists>r\<in>set rows. get_prop r ''fiscal_year'' = Inr (JStr ''FY26''))
                      newline (yoy_all_msg ls)"
    using yoy_all_shape by blast
  show "sublist ''Source: v_year_yoy.'' ans"
    unfolding ans by (rule sublist_with_note [OF cites(3)])
next
  assume "action i = JStr ''category_rank'' \<and> ans \<noteq> ''No categories found for '' @ year i @ ''.''"
  with assms have "handle_category_rank P fetch i = Inr ans"
    and "ans \<noteq> ''No categories found for '' @ year i @ ''.''"
    by (simp_all add: handleIntent_branch)
  then obtain json list where
    ans: "ans = with_note (truthy P (propv json ''partial'')) newline
                  (category_rank_msg P (limit_of P i) (year i) list)"
    using category_rank_shape by blast
  show "sublist (''Source: v_category_totals('' @ year i @ '').'') ans"
    unfolding ans by (rule sublist_with_note [OF cites(4)])
next
  assume "action i = JStr ''category_share''
          \<and> ans \<noteq> ''No data for '' @ category i @ '' in '' @ year i @ ''.''"
  with assms have "handle_category_share P fetch i = Inr ans"
    and "ans \<noteq> ''No data for '' @ category i @ '' in '' @ year i @ ''.''"
    by (simp_all add: handleIntent_branch)
  then obtain t p where
    ans: "ans = with_note (year i = ''FY26'') '' ''
                  (category_share_msg P (category i) (year i) t p)"
    using category_share_shape by blast
  show "sublist (''Source: v_category_shares('' @ year i @ '').'') ans"
    unfolding ans by (rule sublist_with_note [OF cites(5)])
next
  assume "action i = JStr ''line_item_total''"
  with assms have "handle_line_item_total P fetch i = Inr ans"
    by (simp add: handleIntent_branch)
  then obtain json t where
    ans: "ans = with_note (truthy P (propv json ''partial'')) '' ''
                  (line_item_msg P (year i) (category i) (line_item i) t)"
    using line_item_total_shape by blast
  show "sublist ''Source: v_line_items.'' ans"
    unfolding ans by (rule sublist_with_note [OF cites(6)])
qed

theorem data_answers_cite_view_witness:
  "handleIntent whole_numbers (fetch_routes whole_numbers sample_lib) (Category_share ''FY25'' ''taxes'')
     = Inr ''taxes in FY25: $1,481,200 (21% of total). Source: v_category_shares(FY25).''
   \<and> sublist ''Source: v_category_shares(FY25).''
        ''taxes in FY25: $1,481,200 (21% of total). Source: v_category_shares(FY25).''"
proof -
  let ?i = "Category_share ''FY25'' ''taxes''"
  let ?a = "''taxes in FY25: $1,481,200 (21% of total). Source: v_category_shares(FY25).''"
  have h: "handleIntent whole_numbers (fetch_routes whole_numbers sample_lib) ?i = Inr ?a"
    by (simp add: eval_defs)
  have "action ?i = JStr ''category_share'' \<and> ?a \<noteq> ''No data for '' @ category ?i @ '' in '' @ year ?i @ ''.''"
    by (simp add: Category_share_def no_intent_def)
  with data_answers_cite_view [OF h]
  have "sublist (''Source: v_category_shares('' @ year ?i @ '').'') ?a" by blast
  then have "sublist ''Source: v_category_shares(FY25).'' ?a"
    by (simp add: Category_share_def no_intent_def)
  with h show ?thesis by blast
qed

text \<open>
  C2, as the claim has it, fails: FY26 is the partial year, and neither the no-data
  answer for a category of FY26 nor the answer to a line item of FY26 whose query
  failed carries the note.
\<close>

theorem no_note_counterexample:
  "isPartial ''FY26''
   \<and> handleIntent whole_numbers (fetch_routes whole_numbers sample_lib)
       (Category_share ''FY26'' ''PARKS'')
     = Inr ''No data for PARKS in FY26.''
   \<and> \<not> sublist PARTIAL_NOTE ''No data for PARKS in FY26.''
   \<and> handleIntent whole_numbers (fetch_routes whole_numbers failing_lib)
       (Line_item_total ''FY26'' ''ADMINISTRATION'' ''Payroll Taxes'')
     = Inr (''FY26 ADMINISTRATION '' @ arrow @ '' Payroll Taxes: $0. Source: v_line_items.'')
   \<and> \<not> sublist PARTIAL_NOTE
         (''FY26 ADMINISTRATION '' @ arrow @ '' Payroll Taxes: $0. Source: v_line_items.'')"
  by (simp add: eval_defs sublist_code)

lemma get_prop_JStr_propv: "get_prop r k = Inr (JStr y) \<longleftrightarrow> propv r k = JStr y"
  by (cases "get_prop r k") (simp_all add: propv_def)

lemma some_partial_year:
  "(\<exists>r\<in>set rows. get_prop r ''fiscal_year'' = Inr (JStr ''FY26''))
   \<longleftrightarrow> (\<exists>r\<in>set rows. \<exists>y. propv r ''fiscal_year'' = JStr y \<and> isPartial y)"
  by (simp add: get_prop_JStr_propv isPartial_def)

text \<open>The flag that the two handlers put into a successful response is that of the year asked for.\<close>

lemma category_served:
  assumes "fetch_routes P l (category_request P i) = Inr json"
  shows "propv json ''data'' = JUndef \<or> propv json ''partial'' = JBool (isPartial (year i))"
proof (cases "getCategoryRanking l (year i) (limit_param P (category_request P i))")
  case (Inl err)
  with assms have "propv json ''data'' = JUndef"
    by (auto simp: fetch_routes_def serve_def category_request_def GET_category_def
        param_or_def failure_def propv_def Let_def)
  then show ?thesis ..
next
  case (Inr data)
  with assms have "propv json ''partial'' = JBool (isPartial (year i))"
    by (auto simp: fetch_routes_def serve_def category_request_def GET_category_def
        param_or_def ok_def propv_def Let_def)
  then show ?thesis ..
qed

lemma category_rank_without_data:
  assumes "fetch (category_request P i) = Inr json" and "propv json ''data'' = JUndef"
    and "handle_category_rank P fetch i = Inr ans"
  shows "ans = ''No categories found for '' @ year i @ ''.''"
proof -
  from assms(1,3) obtain rows where rows: "get_prop json ''data'' = Inr rows"
    and r: "(if no_length P rows then Inr (''No categories found for '' @ year i @ ''.'')
             else andThen (Array_map (rank_line P) rows) (\<lambda>lines.
                  andThen (get_prop json ''partial'') (\<lambda>partial.
                    Inr (with_note (truthy P partial) newline
                           (category_rank_msg P (limit_of P i) (year i) (join newline lines))))))
            = Inr ans"
    by (auto simp: handle_category_rank_def andThen_Inr_iff)
  from rows assms(2) have "rows = JUndef" by (simp add: propv_def)
  with r show ?thesis by (simp add: no_length_def)
qed

lemma line_item_served:
  assumes "getLineItemTotal l (year i) (category i) (line_item i) = Inr t"
    and "fetch_routes P l (line_item_request i) = Inr json"
  shows "propv json ''partial'' = JBool (isPartial (year i))"
  using assms
  by (auto simp: fetch_routes_def serve_def line_item_request_def GET_line_item_def
      param_or_def ok_def propv_def Let_def)

text \<open>
  C2, amended. In every answer that reports figures the partial-data note is the end of
  the answer exactly when the partial-year predicate holds of the year asked for: of
  the year of a year_total, category_share, category_rank or line_item_total intent, of
  one of the two years of a yoy_difference intent, and for yoy_all of the fiscal year
  of some row of the series. For category_rank and line_item_total the flag travels in
  the response of the route handler, which computes it from the year of the request;
  for line_item_total this is said of a query that succeeded. The not-found and no-data
  messages and the help answer are returned as they are.
\<close>

theorem partial_note_disclosure:
  assumes "handleIntent P fetch i = Inr ans"
  shows "(action i = JStr ''year_total'' \<longrightarrow> (suffix PARTIAL_NOTE ans \<longleftrightarrow> isPartial (year i)))
       \<and> (action i = JStr ''yoy_difference''
            \<and> ans \<noteq> ''I could not find the requested years.'' \<longrightarrow>
            (suffix PARTIAL_NOTE ans \<longleftrightarrow> isPartial (year_to i) \<or> isPartial (year_from i)))
       \<and> (action i = JStr ''yoy_all'' \<longrightarrow>
            (\<exists>rows. fetch yoy_request = Inr (JArr rows)
               \<and> (suffix PARTIAL_NOTE ans \<longleftrightarrow>
                    (\<exists>r\<in>set rows. \<exists>y. propv r ''fiscal_year'' = JStr y \<and> isPartial y))))
       \<and> (action i = JStr ''category_share''
            \<and> ans \<noteq> ''No data for '' @ category i @ '' in '' @ year i @ ''.'' \<longrightarrow>
            (suffix PARTIAL_NOTE ans \<longleftrightarrow> isPartial (year i)))
       \<and> (action i = JStr ''category_rank'' \<and> fetch = fetch_routes P l
            \<and> ans \<noteq> ''No categories found for '' @ year i @ ''.'' \<longrightarrow>
            (suffix PARTIAL_NOTE ans \<longleftrightarrow> isPartial (year i)))
       \<and> (action i = JStr ''line_item_total'' \<and> fetch = fetch_routes P l
            \<and> getLineItemTotal l (year i) (category i) (line_item i) = Inr t \<longrightarrow>
            (suffix PARTIAL_NOTE ans \<longleftrightarrow> isPartial (year i)))
       \<and> (action i = JStr ''help'' \<longrightarrow> ans = question i)"
proof (intro conjI impI)
  assume "action i = JStr ''year_total''"
  with assms have "handle_year_total P fetch i = Inr ans" by (simp add: handleIntent_branch)
  then obtain t where
    ans: "ans = with_note (year i = ''FY26'') '' '' (year_total_msg P (year i) t)"
    using year_total_shape by blast
  show "suffix PARTIAL_NOTE ans \<longleftrightarrow> isPartial (year i)"
    unfolding ans isPartial_def by (rule suffix_with_note [OF no_note(1)])
next
  assume "action i = JStr ''yoy_difference'' \<and> ans \<noteq> ''I could not find the requested years.''"
  with assms have "handle_yoy_difference P fetch i = Inr ans"
    and "ans \<noteq> ''I could not find the requested years.''"
    by (simp_all add: handleIntent_branch)
  then obtain d f t where
    ans: "ans = with_note (year_to i = ''FY26'' \<or> year_from i = ''FY26'') '' ''
                  (yoy_difference_msg P (year_from i) (year_to i) d f t)"
    using yoy_difference_shape by blast
  show "suffix PARTIAL_NOTE ans \<longleftrightarrow> isPartial (year_to i) \<or> isPartial (year_from i)"
    unfolding ans isPartial_def by (rule suffix_with_note [OF no_note(2)])
next
  assume "action i = JStr ''yoy_all''"
  with assms have "handle_yoy_all P fetch = Inr ans" by (simp add: handleIntent_branch)
  then obtain rows ls where rows: "fetch yoy_request = Inr (JArr rows)"
    and ans: "ans = with_note (\<exists>r\<in>set rows. get_prop r ''fiscal_year'' = Inr (JStr ''FY26''))
                      newline (yoy_all_msg ls)"
    using yoy_all_shape by blast
  have "suffix PARTIAL_NOTE ans \<longleftrightarrow>
          (\<exists>r\<in>set rows. get_prop r ''fiscal_year'' = Inr (JStr ''FY26''))"
    unfolding ans by (rule suffix_with_note [OF no_note(3)])
  then have "suffix PARTIAL_NOTE ans \<longleftrightarrow>
          (\<exists>r\<in>set rows. \<exists>y. propv r ''fiscal_year'' = JStr y \<and> isPartial y)"
    by (simp only: some_partial_year)
  with rows show "\<exists>rows. fetch yoy_request = Inr (JArr rows)
      \<and> (suffix PARTIAL_NOTE ans \<longleftrightarrow>
           (\<exists>r\<in>set rows. \<exists>y. propv r ''fiscal_year'' = JStr y \<and> isPartial y))"
    by blast
next
  assume "action i = JStr ''category_share''
          \<and> ans \<noteq> ''No data for '' @ category i @ '' in '' @ year i @ ''.''"
  with assms have "handle_category_share P fetch i = Inr ans"
    and "ans \<noteq> ''No data for '' @ category i @ '' in '' @ year i @ ''.''"
    by (simp_all add: handleIntent_branch)
  then obtain t p where
    ans: "ans = with_note (year i = ''FY26'') '' ''
                  (category_share_msg P (category i) (year i) t p)"
    using category_share_shape by blast
  show "suffix PARTIAL_NOTE ans \<longleftrightarrow> isPartial (year i)"
    unfolding ans isPartial_def by (rule suffix_with_note [OF no_note(5)])
next
  assume a: "action i = JStr ''category_rank'' \<and> fetch = fetch_routes P l
             \<and> ans \<noteq> ''No categories found for '' @ year i @ ''.''"
  with assms have h: "handle_category_rank P fetch i = Inr ans"
    and n: "ans \<noteq> ''No categories found for '' @ year i @ ''.''"
    by (simp_all add: handleIntent_branch)
  then obtain json list where json: "fetch (category_request P i) = Inr json"
    and ans: "ans = with_note (truthy P (propv json ''partial'')) newline
                      (category_rank_msg P (limit_of P i) (year i) list)"
    using category_rank_shape by blast
  from json a have "fetch_routes P l (category_request P i) = Inr json" by simp
  then have "propv json ''data'' = JUndef \<or> propv json ''partial'' = JBool (isPartial (year i))"
    by (rule category_served)
  moreover have "propv json ''data'' \<noteq> JUndef"
    using category_rank_without_data [OF json _ h] n by blast
  ultimately have "truthy P (propv json ''partial'') = isPartial (year i)" by auto
  then show "suffix PARTIAL_NOTE ans \<longleftrightarrow> isPartial (year i)"
    unfolding ans by (simp only: suffix_with_note [OF no_note(4)])
next
  assume a: "action i = JStr ''line_item_total'' \<and> fetch = fetch_routes P l
             \<and> getLineItemTotal l (year i) (category i) (line_item i) = Inr t"
  with assms have "handle_line_item_total P fetch i = Inr ans"
    by (simp add: handleIntent_branch)
  then obtain json u where json: "fetch (line_item_request i) = Inr json"
    and ans: "ans = with_note (truthy P (propv json ''partial'')) '' ''
                      (line_item_msg P (year i) (category i) (line_item i) u)"
    using line_item_total_shape by blast
  from json a have "fetch_routes P l (line_item_request i) = Inr json" by simp
  with a have "propv json ''partial'' = JBool (isPartial (year i))"
    using line_item_served by blast
  then have "truthy P (propv json ''partial'') = isPartial (year i)" by simp
  then show "suffix PARTIAL_NOTE ans \<longleftrightarrow> isPartial (year i)"
    unfolding ans by (simp only: suffix_with_note [OF no_note(6)])
next
  assume "action i = JStr ''help''"
  with assms show "ans = question i" by (simp add: handleIntent_branch)
qed

theorem partial_note_disclosure_witness:
  "handleIntent whole_numbers (fetch_routes whole_numbers sample_lib)
     (Line_item_total ''FY26'' ''ADMINISTRATION'' ''Payroll Taxes'')
     = Inr (''FY26 ADMINISTRATION '' @ arrow
            @ '' Payroll Taxes: $0. Source: v_line_items. Note: FY26 data is partial.'')
   \<and> suffix PARTIAL_NOTE (''FY26 ADMINISTRATION '' @ arrow
            @ '' Payroll Taxes: $0. Source: v_line_items. Note: FY26 data is partial.'')
   \<and> handleIntent whole_numbers (fetch_routes whole_numbers sample_lib)
       (Category_share ''FY25'' ''taxes'')
     = Inr ''taxes in FY25: $1,481,200 (21% of total). Source: v_category_shares(FY25).''
   \<and> \<not> suffix PARTIAL_NOTE
          ''taxes in FY25: $1,481,200 (21% of total). Source: v_category_shares(FY25).''"
proof (intro conjI)
  let ?f = "fetch_routes whole_numbers sample_lib"
  let ?i = "Line_item_total ''FY26'' ''ADMINISTRATION'' ''Payroll Taxes''"
  let ?a = "''FY26 ADMINISTRATION '' @ arrow
            @ '' Payroll Taxes: $0. Source: v_line_items. Note: FY26 data is partial.''"
  let ?j = "Category_share ''FY25'' ''taxes''"
  let ?b = "''taxes in FY25: $1,481,200 (21% of total). Source: v_category_shares(FY25).''"
  show h: "handleIntent whole_numbers ?f ?i = Inr ?a"
    by (simp add: eval_defs)
  show g: "handleIntent whole_numbers ?f ?j = Inr ?b"
    by (simp add: eval_defs)
  have ai: "action ?i = JStr ''line_item_total'' \<and> ?f = fetch_routes whole_numbers sample_lib
            \<and> getLineItemTotal sample_lib (year ?i) (category ?i) (line_item ?i)
                = Inr (JNum (Some 0))"
    by (simp add: Line_item_total_def no_intent_def sample_lib_def)
  have "action ?i = JStr ''line_item_total'' \<and> ?f = fetch_routes whole_numbers sample_lib
            \<and> getLineItemTotal sample_lib (year ?i) (category ?i) (line_item ?i)
                = Inr (JNum (Some 0)) \<longrightarrow>
          (suffix PARTIAL_NOTE ?a \<longleftrightarrow> isPartial (year ?i))"
    by (rule partial_note_disclosure [OF h, THEN conjunct2, THEN conjunct2, THEN conjunct2,
          THEN conjunct2, THEN conjunct2, THEN conjunct1])
  with ai have "suffix PARTIAL_NOTE ?a \<longleftrightarrow> isPartial (year ?i)" by (elim impE) assumption
  then show "suffix PARTIAL_NOTE ?a"
    by (simp add: Line_item_total_def no_intent_def isPartial_def)
  have aj: "action ?j = JStr ''category_share''
        \<and> ?b \<noteq> ''No data for '' @ category ?j @ '' in '' @ year ?j @ ''.''"
    by (simp add: Category_share_def no_intent_def)
  have "action ?j = JStr ''category_share''
        \<and> ?b \<noteq> ''No data for '' @ category ?j @ '' in '' @ year ?j @ ''.'' \<longrightarrow>
        (suffix PARTIAL_NOTE ?b \<longleftrightarrow> isPartial (year ?j))"
    by (rule partial_note_disclosure [OF g, THEN conjunct2, THEN conjunct2, THEN conjunct2,
          THEN conjunct1])
  with aj have "suffix PARTIAL_NOTE ?b \<longleftrightarrow> isPartial (year ?j)" by (elim impE) assumption
  then show "\<not> suffix PARTIAL_NOTE ?b"
    by (simp add: Category_share_def no_intent_def isPartial_def)
qed

section \<open>The resolver over an array of rows\<close>

lemma get_prop_total: "\<not> nullish r \<Longrightarrow> get_prop r k = Inr (propv r k)"
  by (cases r) (simp_all add: nullish_def propv_def)

lemma propv_JStr_not_nullish: "propv r k = JStr s \<Longrightarrow> \<not> nullish r"
  by (cases r) (simp_all add: nullish_def propv_def)

lemma propv_JStr_truthy: "propv r k = JStr s \<Longrightarrow> truthy P r"
  by (cases r) (simp_all add: propv_def)

lemma find_first_fiscal_year:
  "list_all (\<lambda>r. \<not> nullish r) rows \<Longrightarrow>
   find_first (fiscal_year_is y) rows =
     Inr (case find (\<lambda>r. propv r ''fiscal_year'' = JStr y) rows of
            None \<Rightarrow> JUndef | Some r \<Rightarrow> r)"
  by (induction rows) (simp_all add: fiscal_year_is_def get_prop_total andThen_simps)

lemma find_Some_holds: "find P xs = Some x \<Longrightarrow> P x \<and> x \<in> set xs"
  by (induction xs) (auto split: if_splits)

text \<open>
  What the year_total branch answers when the body of the response is the array of rows
  that its type annotation expects.
\<close>

lemma year_total_over_rows:
  assumes "action i = JStr ''year_total''"
    and "fetch year_totals_request = Inr (JArr rows)"
    and "list_all (\<lambda>r. \<not> nullish r) rows"
  shows "handleIntent P fetch i =
           Inr (with_note (year i = ''FY26'') '' ''
                  (year_total_msg P (year i)
                     (case find (\<lambda>r. propv r ''fiscal_year'' = JStr (year i)) rows of
                        None \<Rightarrow> JUndef | Some r \<Rightarrow> propv r ''total'')))"
proof (cases "find (\<lambda>r. propv r ''fiscal_year'' = JStr (year i)) rows")
  case None
  with assms show ?thesis
    by (simp add: handleIntent_branch handle_year_total_def andThen_simps Array_find_def
        find_first_fiscal_year opt_prop_def nullish_def)
next
  case (Some r)
  then have "\<not> nullish r"
    using find_Some_holds [OF Some] propv_JStr_not_nullish by blast
  with Some assms show ?thesis
    by (simp add: handleIntent_branch handle_year_total_def andThen_simps Array_find_def
        find_first_fiscal_year opt_prop_def get_prop_total)
qed

text \<open>The same for the yoy_difference branch.\<close>

lemma yoy_difference_over_rows:
  assumes "action i = JStr ''yoy_difference''"
    and "fetch yoy_request = Inr (JArr rows)"
    and "list_all (\<lambda>r. \<not> nullish r) rows"
  shows "handleIntent P fetch i =
           Inr (case (find (\<lambda>r. propv r ''fiscal_year'' = JStr (year_to i)) rows,
                      find (\<lambda>r. propv r ''fiscal_year'' = JStr (year_from i)) rows) of
                  (Some toRow, Some fromRow) \<Rightarrow>
                    with_note (year_to i = ''FY26'' \<or> year_from i = ''FY26'') '' ''
                      (yoy_difference_msg P (year_from i) (year_to i)
                         (js_minus P (propv toRow ''total'') (propv fromRow ''total''))
                         (propv fromRow ''total'') (propv toRow ''total''))
                | _ \<Rightarrow> ''I could not find the requested years.'')"
proof -
  have t: "find (\<lambda>r. propv r ''fiscal_year'' = JStr y) rows = Some r \<Longrightarrow>
           truthy P r \<and> \<not> nullish r" for y r
    using find_Some_holds [of "\<lambda>r. propv r ''fiscal_year'' = JStr y" rows r]
      propv_JStr_truthy [of r "''fiscal_year''" y P] propv_JStr_not_nullish [of r "''fiscal_year''" y]
    by simp
  show ?thesis
  proof (cases "find (\<lambda>r. propv r ''fiscal_year'' = JStr (year_to i)) rows")
    case None
    with assms show ?thesis
      by (simp add: handleIntent_branch handle_yoy_difference_def andThen_simps Array_find_def
          find_first_fiscal_year)
  next
    case to: (Some toRow)
    show ?thesis
    proof (cases "find (\<lambda>r. propv r ''fiscal_year'' = JStr (year_from i)) rows")
      case None
      with to assms show ?thesis
        by (simp add: handleIntent_branch handle_yoy_difference_def andThen_simps Array_find_def
            find_first_fiscal_year)
    next
      case (Some fromRow)
      with to assms t [OF to] t [OF Some] show ?thesis
        by (simp add: handleIntent_branch handle_yoy_difference_def andThen_simps Array_find_def
            find_first_fiscal_year get_prop_total Let_def)
    qed
  qed
qed

section \<open>The year-totals and year-over-year handlers behind the resolver\<close>

text \<open>
  The two handlers answer with an object, on success and on failure alike; \<open>rows.find\<close>
  on an object is a TypeError, whatever the intent and whatever the adapter returns.
\<close>

lemma year_total_via_routes:
  "action i = JStr ''year_total'' \<Longrightarrow> handleIntent P (fetch_routes P l) i = Inl TypeError"
  by (simp add: handleIntent_branch handle_year_total_def year_totals_request_def
      fetch_routes_def serve_def GET_year_totals_def ok_def failure_def andThen_simps
      Array_find_def split: sum.splits)

lemma yoy_difference_via_routes:
  "action i = JStr ''yoy_difference'' \<Longrightarrow> handleIntent P (fetch_routes P l) i = Inl TypeError"
  by (simp add: handleIntent_branch handle_yoy_difference_def yoy_request_def
      fetch_routes_def serve_def GET_yoy_def ok_def failure_def andThen_simps
      Array_find_def split: sum.splits)

text \<open>
  C3. Against the year-totals handler of \<open>app/api/budget/year-totals/route.ts\<close> the
  resolver does not return the answer: the body is \<open>{success, data, message}\<close>, and the
  branch calls \<open>find\<close> on the body itself where the category branches read \<open>json.data\<close>.
\<close>

theorem year_total_rejects:
  "fetch_routes whole_numbers sample_lib year_totals_request =
     Inr (JObj [(''success'', JBool True), (''data'', sample_year_totals),
                (''message'', JStr ''Year totals retrieved successfully'')])
   \<and> handleIntent whole_numbers (fetch_routes whole_numbers sample_lib) (Year_total ''FY25'')
       = Inl TypeError
   \<and> handleIntent whole_numbers (\<lambda>req. Inr sample_year_totals) (Year_total ''FY25'')
       = Inr ''Total FY25 budget: $6,894,068. Source: v_year_totals(FY25).''"
  by (simp add: eval_defs)

text \<open>
  C4. Against the year-over-year handler of \<open>app/api/budget/yoy/route.ts\<close> the resolver
  locates no row and computes no delta, for the same reason.
\<close>

theorem yoy_difference_rejects:
  "fetch_routes whole_numbers sample_lib yoy_request =
     Inr (JObj [(''success'', JBool True), (''data'', sample_yoy),
                (''message'', JStr ''Year-over-year data retrieved successfully'')])
   \<and> handleIntent whole_numbers (fetch_routes whole_numbers sample_lib) (Yoy_difference ''FY24'' ''FY25'')
       = Inl TypeError
   \<and> handleIntent whole_numbers (\<lambda>req. Inr sample_yoy) (Yoy_difference ''FY24'' ''FY25'')
       = Inr (''Change from FY24 to FY25: $1,502,433 ($5,391,635 '' @ arrow
              @ '' $6,894,068). Source: v_year_yoy.'')"
  by (simp add: eval_defs)

section \<open>Category rankings and shares\<close>


lemma wire_rows:
  "over_the_wire P (JArr rows) = JArr rows \<Longrightarrow>
   map (\<lambda>x. if x = JUndef then JNull else over_the_wire P x) rows = rows"
  by simp



section \<open>Upper case and the case of letters\<close>

lemma pairs_case_eq:
  assumes df: "distinct (map fst ps)" and ds: "distinct (map snd ps)"
    and dj: "fst ` set ps \<inter> snd ` set ps = {}"
  shows "(case map_of ps a of None \<Rightarrow> a | Some u \<Rightarrow> u)
         = (case map_of ps b of None \<Rightarrow> b | Some u \<Rightarrow> u)
         \<longleftrightarrow> a = b \<or> (a, b) \<in> set ps \<or> (b, a) \<in> set ps"
proof -
  have some: "map_of ps x = Some y \<longleftrightarrow> (x, y) \<in> set ps" for x y
    using df by (rule map_of_eq_Some_iff)
  have none: "map_of ps x = None \<longleftrightarrow> x \<notin> fst ` set ps" for x
    by (simp add: map_of_eq_None_iff)
  have inj: "(x, u) \<in> set ps \<Longrightarrow> (y, u) \<in> set ps \<Longrightarrow> x = y" for x y u
  proof -
    assume x: "(x, u) \<in> set ps" and y: "(y, u) \<in> set ps"
    from ds have "inj_on snd (set ps)" by (simp add: distinct_map)
    from inj_onD [OF this _ x y] show "x = y" by simp
  qed
  have not_both: "(x, y) \<in> set ps \<Longrightarrow> y \<notin> fst ` set ps" for x y
  proof
    assume "(x, y) \<in> set ps" and "y \<in> fst ` set ps"
    then have "y \<in> fst ` set ps \<inter> snd ` set ps" by force
    with dj show False by simp
  qed
  show ?thesis
  proof (cases "map_of ps a")
    case na: None
    show ?thesis
    proof (cases "map_of ps b")
      case None
      with na show ?thesis
        using none [of a] none [of b] by force
    next
      case (Some v)
      with na show ?thesis
        using none [of a] some [of b v] some [of b a] not_both [of a b] by force
    qed
  next
    case sa: (Some u)
    show ?thesis
    proof (cases "map_of ps b")
      case None
      with sa show ?thesis
        using none [of b] some [of a u] some [of a b] not_both [of b a] by force
    next
      case (Some v)
      with sa show ?thesis
        using some [of a u] some [of b v] inj [of a u b] not_both [of a b] not_both [of b a]
        by force
    qed
  qed
qed

lemma letter_pairs_distinct:
  "distinct (map fst letter_pairs)" "distinct (map snd letter_pairs)"
  "fst ` set letter_pairs \<inter> snd ` set letter_pairs = {}"
  by (simp_all add: letter_pairs_def)

lemma upper_char_same_letter: "upper_char a = upper_char b \<longleftrightarrow> same_letter a b"
  unfolding upper_char_def same_letter_def letter_pairs_def [symmetric]
  by (rule pairs_case_eq [OF letter_pairs_distinct])

lemma map_upper_char_eq: "map upper_char s = map upper_char t \<longleftrightarrow> eq_ignore_case s t"
proof (induction s arbitrary: t)
  case Nil
  then show ?case by (simp add: eq_ignore_case_def)
next
  case (Cons a s)
  then show ?case
    by (cases t) (simp_all add: eq_ignore_case_def upper_char_same_letter)
qed

lemma ascii_upper_case_eq:
  assumes "ascii_upper_case P" and "list_all is_ascii s" and "list_all is_ascii t"
  shows "toUpperCase P s = toUpperCase P t \<longleftrightarrow> eq_ignore_case s t"
  using assms by (simp add: ascii_upper_case_def map_upper_char_eq)

lemma whole_numbers_ascii: "ascii_upper_case whole_numbers"
  by (simp add: ascii_upper_case_def whole_numbers_def)

section \<open>Category shares\<close>

lemma category_name_Some:
  "category_name r = Some s \<Longrightarrow>
   get_prop r ''category'' = Inr (JStr s) \<and> truthy P r \<and> \<not> nullish r"
proof -
  assume "category_name r = Some s"
  then have p: "propv r ''category'' = JStr s"
    by (simp add: category_name_def split: jsval.splits)
  then have "\<not> nullish r" and "truthy P r"
    using propv_JStr_not_nullish propv_JStr_truthy by (blast, blast)
  with p show ?thesis by (simp add: get_prop_total)
qed

lemma find_first_category:
  "list_all (\<lambda>r. category_name r \<noteq> None) rows \<Longrightarrow>
   find_first (category_is P c) rows =
     Inr (case find (same_category P c) rows of None \<Rightarrow> JUndef | Some r \<Rightarrow> r)"
proof (induction rows)
  case Nil
  then show ?case by simp
next
  case (Cons r rows)
  then obtain s where s: "category_name r = Some s" by auto
  from Cons show ?case
    using category_name_Some [OF s]
    by (simp add: category_is_def andThen_simps same_category_def s)
qed

lemma ascii_names_match:
  assumes "ascii_upper_case P" and "list_all is_ascii c" and "list_all ascii_name rows"
  shows "find (same_category P c) rows = find (names_match c) rows"
proof (rule find_cong [OF refl])
  fix r
  assume "r \<in> set rows"
  with assms(3) have "ascii_name r" by (simp add: list_all_iff)
  then obtain s where s: "category_name r = Some s" and a: "list_all is_ascii s"
    by (auto simp: ascii_name_def split: option.splits)
  show "same_category P c r = names_match c r"
    using ascii_upper_case_eq [OF assms(1) a assms(2)]
    by (simp add: same_category_def names_match_def s)
qed

text \<open>
  C7. The rows of the shares query are searched, in order, for the first row whose
  category name equals the requested one after the platform has put both in upper case.
  Without such a row the answer is the no-data message; with one, the answer reports
  the amount and the percentage of that row and cites the view. For names in ASCII,
  where upper case is the capital of each small letter, that row is the first whose
  name equals the requested one but for the case of the letters.
\<close>

theorem category_share_answer:
  assumes "action i = JStr ''category_share''"
    and "getCategoryShares l (year i) = Inr (JArr rows)"
    and "over_the_wire P (JArr rows) = JArr rows"
    and "list_all (\<lambda>r. category_name r \<noteq> None) rows"
  shows "handleIntent P (fetch_routes P l) i =
           Inr (case find (same_category P (category i)) rows of
                  None \<Rightarrow> ''No data for '' @ category i @ '' in '' @ year i @ ''.''
                | Some row \<Rightarrow>
                    with_note (year i = ''FY26'') '' ''
                      (category i @ '' in '' @ year i @ '': '' @ USD P (propv row ''total'')
                       @ '' ('' @ ToString P (propv row ''pct_of_year'')
                       @ ''% of total). Source: v_category_shares('' @ year i @ '').''))
       \<and> (ascii_upper_case P \<and> list_all is_ascii (category i) \<and> list_all ascii_name rows \<longrightarrow>
           handleIntent P (fetch_routes P l) i =
             Inr (case find (names_match (category i)) rows of
                    None \<Rightarrow> ''No data for '' @ category i @ '' in '' @ year i @ ''.''
                  | Some row \<Rightarrow>
                      with_note (year i = ''FY26'') '' ''
                        (category i @ '' in '' @ year i @ '': '' @ USD P (propv row ''total'')
                         @ '' ('' @ ToString P (propv row ''pct_of_year'')
                         @ ''% of total). Source: v_category_shares('' @ year i @ '').'')))"
proof -
  have served: "fetch_routes P l (shares_request i) =
      Inr (JObj [(''success'', JBool True), (''year'', JStr (year i)),
                 (''partial'', JBool (isPartial (year i))), (''data'', JArr rows),
                 (''message'', JStr (''Category shares for '' @ year i
                                      @ '' retrieved successfully''))])"
    using assms(2) wire_rows [OF assms(3)]
    by (simp add: fetch_routes_def serve_def shares_request_def GET_shares_def
        param_or_def ok_def Let_def)
  have general: "handleIntent P (fetch_routes P l) i =
           Inr (case find (same_category P (category i)) rows of
                  None \<Rightarrow> ''No data for '' @ category i @ '' in '' @ year i @ ''.''
                | Some row \<Rightarrow>
                    with_note (year i = ''FY26'') '' ''
                      (category i @ '' in '' @ year i @ '': '' @ USD P (propv row ''total'')
                       @ '' ('' @ ToString P (propv row ''pct_of_year'')
                       @ ''% of total). Source: v_category_shares('' @ year i @ '').''))"
  proof (cases "find (same_category P (category i)) rows")
    case None
    with assms(1,4) show ?thesis
      by (simp add: handleIntent_branch handle_category_share_def served andThen_simps
          Array_find_def find_first_category)
  next
    case (Some row)
    then have "same_category P (category i) row"
      using find_Some_holds by fast
    then obtain s where "category_name row = Some s"
      by (auto simp: same_category_def split: option.splits)
    then have "truthy P row" and "\<not> nullish row"
      using category_name_Some by blast+
    with Some assms(1,4) show ?thesis
      by (simp add: handleIntent_branch handle_category_share_def served andThen_simps
          Array_find_def find_first_category get_prop_total category_share_msg_def)
  qed
  show ?thesis
  proof (intro conjI impI)
    show "handleIntent P (fetch_routes P l) i =
           Inr (case find (same_category P (category i)) rows of
                  None \<Rightarrow> ''No data for '' @ category i @ '' in '' @ year i @ ''.''
                | Some row \<Rightarrow>
                    with_note (year i = ''FY26'') '' ''
                      (category i @ '' in '' @ year i @ '': '' @ USD P (propv row ''total'')
                       @ '' ('' @ ToString P (propv row ''pct_of_year'')
                       @ ''% of total). Source: v_category_shares('' @ year i @ '').''))"
      by (rule general)
  next
    assume a: "ascii_upper_case P \<and> list_all is_ascii (category i) \<and> list_all ascii_name rows"
    then have "find (same_category P (category i)) rows = find (names_match (category i)) rows"
      using ascii_names_match by blast
    with general show "handleIntent P (fetch_routes P l) i =
             Inr (case find (names_match (category i)) rows of
                    None \<Rightarrow> ''No data for '' @ category i @ '' in '' @ year i @ ''.''
                  | Some row \<Rightarrow>
                      with_note (year i = ''FY26'') '' ''
                        (category i @ '' in '' @ year i @ '': '' @ USD P (propv row ''total'')
                         @ '' ('' @ ToString P (propv row ''pct_of_year'')
                         @ ''% of total). Source: v_category_shares('' @ year i @ '').''))"
      by (simp only:)
  qed
qed

theorem category_share_answer_witness:
  "handleIntent whole_numbers (fetch_routes whole_numbers sample_lib)
     (Category_share ''FY25'' ''Police Department'')
     = Inr ''Police Department in FY25: $1,249,212 (18% of total). Source: v_category_shares(FY25).''
   \<and> names_match ''Police Department'' (sample_shares ! 1)
   \<and> \<not> names_match ''Police Department'' (sample_shares ! 0)"
proof (intro conjI)
  let ?i = "Category_share ''FY25'' ''Police Department''"
  have a: "action ?i = JStr ''category_share''"
    by (simp add: Category_share_def no_intent_def)
  have b: "getCategoryShares sample_lib (year ?i) = Inr (JArr sample_shares)"
    by (simp add: sample_lib_def Category_share_def no_intent_def)
  have c: "over_the_wire whole_numbers (JArr sample_shares) = JArr sample_shares"
    by (simp add: sample_shares_def whole_numbers_def)
  have d: "list_all (\<lambda>r. category_name r \<noteq> None) sample_shares"
    by (simp add: sample_shares_def category_name_def propv_def)
  have e: "ascii_upper_case whole_numbers \<and> list_all is_ascii (category ?i)
           \<and> list_all ascii_name sample_shares"
    by (simp add: whole_numbers_ascii Category_share_def no_intent_def sample_shares_def
        ascii_name_def category_name_def propv_def is_ascii_def)
  show m1: "names_match ''Police Department'' (sample_shares ! 1)"
    by (simp add: names_match_def category_name_def propv_def sample_shares_def
        eq_ignore_case_def same_letter_def letter_pairs_def)
  show m0: "\<not> names_match ''Police Department'' (sample_shares ! 0)"
    by (simp add: names_match_def category_name_def propv_def sample_shares_def
        eq_ignore_case_def same_letter_def letter_pairs_def)
  have f: "find (names_match ''Police Department'') sample_shares = Some (sample_shares ! 1)"
    using m0 m1 by (simp add: sample_shares_def)
  from category_share_answer
    [where i = ?i and P = whole_numbers and l = sample_lib and rows = sample_shares,
      OF a b c d, THEN conjunct2] e
  have "handleIntent whole_numbers (fetch_routes whole_numbers sample_lib) ?i =
          Inr (case find (names_match (category ?i)) sample_shares of
                 None \<Rightarrow> ''No data for '' @ category ?i @ '' in '' @ year ?i @ ''.''
               | Some row \<Rightarrow>
                   with_note (year ?i = ''FY26'') '' ''
                     (category ?i @ '' in '' @ year ?i @ '': ''
                      @ USD whole_numbers (propv row ''total'')
                      @ '' ('' @ ToString whole_numbers (propv row ''pct_of_year'')
                      @ ''% of total). Source: v_category_shares('' @ year ?i @ '').''))"
    by (elim impE) assumption
  then show "handleIntent whole_numbers (fetch_routes whole_numbers sample_lib) ?i
     = Inr ''Police Department in FY25: $1,249,212 (18% of total). Source: v_category_shares(FY25).''"
    by (simp add: Category_share_def no_intent_def f)
       (simp add: eval_defs propv_def sample_shares_def)
qed

end
